theory Spec2Isabelle
  imports Main "HOL-Library.AList"
begin

section \<open>Values, errors and the Python operations the adapters use\<close>

text \<open>
  The adapters of \<^verbatim>\<open>datadog_sync/model\<close> work on decoded JSON: a response body or a
  resource instance is \<open>None\<close>, a boolean, an integer, a string, a list or a dict with
  string keys. A dict is kept as an association list in insertion order; \<open>map_of\<close> reads
  it, \<open>AList.update\<close> stores a key (in place when present, appended otherwise) and
  \<open>AList.delete\<close> removes one. Floating point numbers are left out of the model.
\<close>

datatype json =
    JNull
  | JBool bool
  | JInt int
  | JStr string
  | JList "json list"
  | JDict "(string \<times> json) list"

text \<open>
  Every exception the modelled code can raise is a value. \<open>HTTPError c\<close> is the client's
  \<^verbatim>\<open>CustomClientHTTPError\<close> with \<^verbatim>\<open>status_code == c\<close>; \<open>OtherError\<close> stands for any
  exception of the transport that is not a \<^verbatim>\<open>CustomClientHTTPError\<close>.
\<close>

datatype error =
    KeyError json
  | AttributeError
  | TypeError
  | IndexError
  | HTTPError nat
  | OtherError string

definition ebind :: "error + 'a \<Rightarrow> ('a \<Rightarrow> error + 'b) \<Rightarrow> error + 'b" where
  "ebind m f = (case m of Inl e \<Rightarrow> Inl e | Inr x \<Rightarrow> f x)"

text \<open>Truth value of an object in a condition (\<^verbatim>\<open>if x:\<close>, \<^verbatim>\<open>x or y\<close>).\<close>

fun truthy :: "json \<Rightarrow> bool" where
  "truthy JNull = False"
| "truthy (JBool b) = b"
| "truthy (JInt i) = (i \<noteq> 0)"
| "truthy (JStr s) = (s \<noteq> [])"
| "truthy (JList xs) = (xs \<noteq> [])"
| "truthy (JDict kvs) = (kvs \<noteq> [])"

text \<open>\<^verbatim>\<open>x.get(k, d)\<close>: only a dict has the method.\<close>

fun py_get :: "json \<Rightarrow> string \<Rightarrow> json \<Rightarrow> error + json" where
  "py_get (JDict kvs) k d = Inr (case map_of kvs k of Some v \<Rightarrow> v | None \<Rightarrow> d)"
| "py_get _ k d = Inl AttributeError"

text \<open>\<^verbatim>\<open>x[k]\<close> for a string \<open>k\<close>: a missing key raises, any other object rejects the index.\<close>

fun py_item :: "json \<Rightarrow> string \<Rightarrow> error + json" where
  "py_item (JDict kvs) k = (case map_of kvs k of Some v \<Rightarrow> Inr v | None \<Rightarrow> Inl (KeyError (JStr k)))"
| "py_item _ k = Inl TypeError"

text \<open>\<^verbatim>\<open>x[0]\<close>.\<close>

fun py_first :: "json \<Rightarrow> error + json" where
  "py_first (JList []) = Inl IndexError"
| "py_first (JList (x # xs)) = Inr x"
| "py_first (JStr []) = Inl IndexError"
| "py_first (JStr (c # cs)) = Inr (JStr [c])"
| "py_first (JDict kvs) = Inl (KeyError (JInt 0))"
| "py_first _ = Inl TypeError"

fun contains_str :: "string \<Rightarrow> string \<Rightarrow> bool" where
  "contains_str k [] = (k = [])"
| "contains_str k (c # cs) = (take (length k) (c # cs) = k \<or> contains_str k cs)"

text \<open>\<^verbatim>\<open>k in x\<close> for a string \<open>k\<close>: key of a dict, element of a list, substring of a string.\<close>

fun py_in :: "string \<Rightarrow> json \<Rightarrow> error + bool" where
  "py_in k (JDict kvs) = Inr (k \<in> fst ` set kvs)"
| "py_in k (JList xs) = Inr (JStr k \<in> set xs)"
| "py_in k (JStr s) = Inr (contains_str k s)"
| "py_in k _ = Inl TypeError"

text \<open>\<^verbatim>\<open>x[k] = v\<close> for a string \<open>k\<close>.\<close>

fun py_setitem :: "json \<Rightarrow> string \<Rightarrow> json \<Rightarrow> error + json" where
  "py_setitem (JDict kvs) k v = Inr (JDict (AList.update k v kvs))"
| "py_setitem _ k v = Inl TypeError"

text \<open>The elements a \<^verbatim>\<open>for\<close> loop visits: a dict yields its keys, a string its characters.\<close>

fun py_iter :: "json \<Rightarrow> error + json list" where
  "py_iter (JList xs) = Inr xs"
| "py_iter (JDict kvs) = Inr (map JStr (remdups (map fst kvs)))"
| "py_iter (JStr s) = Inr (map (\<lambda>c. JStr [c]) s)"
| "py_iter _ = Inl TypeError"

fun is_list :: "json \<Rightarrow> bool" where
  "is_list (JList xs) = True"
| "is_list _ = False"


text \<open>\<^verbatim>\<open>x or y\<close>: \<open>y\<close> is evaluated only when \<open>x\<close> is false.\<close>

definition py_or :: "error + json \<Rightarrow> error + json \<Rightarrow> error + json" where
  "py_or x y = ebind x (\<lambda>a. if truthy a then Inr a else y)"

text \<open>\<^verbatim>\<open>d.update(e)\<close> for two dicts.\<close>

definition dict_update :: "(string \<times> json) list \<Rightarrow> (string \<times> json) list \<Rightarrow> (string \<times> json) list" where
  "dict_update d e = foldl (\<lambda>acc kv. AList.update (fst kv) (snd kv) acc) d e"

subsection \<open>Formatting: \<^verbatim>\<open>str\<close> and \<^verbatim>\<open>repr\<close>, as f-strings apply them\<close>

fun nat_digits :: "nat \<Rightarrow> string" where
  "nat_digits n =
     (if n < 10 then [''0123456789'' ! n]
      else nat_digits (n div 10) @ [''0123456789'' ! (n mod 10)])"

declare nat_digits.simps [simp del]

definition int_str :: "int \<Rightarrow> string" where
  "int_str i = (if i < 0 then CHR ''-'' # nat_digits (nat (- i)) else nat_digits (nat i))"

definition hex2 :: "char \<Rightarrow> string" where
  "hex2 c =
     [''0123456789abcdef'' ! (of_char c div 16), ''0123456789abcdef'' ! (of_char c mod 16)]"

text \<open>
  One character inside a quoted string, \<open>q\<close> the quote in use. Strings are taken as
  ASCII text: the backslash (0x5C), the quote, newline, return and tab are escaped, other
  control characters are written \<^verbatim>\<open>\xNN\<close>.
\<close>

definition repr_char :: "char \<Rightarrow> char \<Rightarrow> string" where
  "repr_char q c =
     (if c = CHR 0x5C then [CHR 0x5C, CHR 0x5C]
      else if c = q then [CHR 0x5C, q]
      else if c = CHR 0x0A then [CHR 0x5C, CHR ''n'']
      else if c = CHR 0x0D then [CHR 0x5C, CHR ''r'']
      else if c = CHR 0x09 then [CHR 0x5C, CHR ''t'']
      else if (of_char c :: nat) < 32 \<or> (of_char c :: nat) = 127
        then [CHR 0x5C, CHR ''x''] @ hex2 c
      else [c])"

text \<open>Single quotes (0x27), unless the string has one and no double quote (0x22).\<close>

definition str_repr :: "string \<Rightarrow> string" where
  "str_repr s =
     (let q = (if CHR 0x27 \<in> set s \<and> CHR 0x22 \<notin> set s then CHR 0x22 else CHR 0x27)
      in q # concat (map (repr_char q) s) @ [q])"

fun join :: "string \<Rightarrow> string list \<Rightarrow> string" where
  "join sep [] = []"
| "join sep [x] = x"
| "join sep (x # y # ys) = x @ sep @ join sep (y # ys)"

fun py_repr :: "json \<Rightarrow> string" where
  "py_repr JNull = ''None''"
| "py_repr (JBool b) = (if b then ''True'' else ''False'')"
| "py_repr (JInt i) = int_str i"
| "py_repr (JStr s) = str_repr s"
| "py_repr (JList xs) = ''['' @ join '', '' (map py_repr xs) @ '']''"
| "py_repr (JDict kvs) =
     ''{'' @ join '', '' (map (\<lambda>kv. str_repr (fst kv) @ '': '' @ py_repr (snd kv)) kvs) @ ''}''"

text \<open>What \<^verbatim>\<open>f"{v}"\<close> inserts: a string as it is, anything else as \<^verbatim>\<open>repr\<close> prints it.\<close>

definition py_str :: "json \<Rightarrow> string" where
  "py_str v = (case v of JStr s \<Rightarrow> s | _ \<Rightarrow> py_repr v)"

text \<open>\<^verbatim>\<open>s.split(c, 1)\<close>: at most one split, at the first \<open>c\<close>.\<close>

definition split1 :: "char \<Rightarrow> string \<Rightarrow> string list" where
  "split1 c s =
     (if c \<in> set s then [takeWhile (\<lambda>x. x \<noteq> c) s, tl (dropWhile (\<lambda>x. x \<noteq> c) s)] else [s])"


section \<open>The client, the state store and the adapter object\<close>

text \<open>
  The transport is a collaborator: \<^verbatim>\<open>get(path)\<close>, \<^verbatim>\<open>post(path, body)\<close>,
  \<^verbatim>\<open>put(path, body, params=...)\<close>, \<^verbatim>\<open>patch(path, body)\<close> and
  \<^verbatim>\<open>delete(path, body=...)\<close>, each of which returns a body or raises. A client is any
  function from the request and the state of the remote account to the outcome and the
  new state of the account; nothing more is assumed of it.
\<close>

datatype request =
    GET string
  | POST string json
  | PUT string json "json option"
  | PATCH string json
  | DELETE string "json option"

type_synonym 'w client = "request \<Rightarrow> 'w \<Rightarrow> (error + json) \<times> 'w"

text \<open>
  A logged line: its level, its text up to the exception it formats, and that exception.
\<close>

datatype log_entry =
    LogDebug string
  | LogWarning string "error option"

text \<open>
  What an operation of an adapter reads and writes: the remote accounts (\<open>world\<close>), every
  request issued so far (\<open>calls\<close>, oldest first), the logger's lines (\<open>logs\<close>), the two
  dicts \<^verbatim>\<open>config.state.source[resource_type]\<close> and
  \<^verbatim>\<open>config.state.destination[resource_type]\<close> of the State Store (\<open>source\<close>,
  \<open>destination\<close>), and the adapter's own Destination Cache (\<open>cache\<close>: the attribute
  \<^verbatim>\<open>destination_integrations\<close>, \<^verbatim>\<open>destination_channels\<close>, ... of the class). The cache
  is a dict whose keys are hashable objects, not only strings.

  The operations below take the clients they call as arguments. An argument annotated
  \<^verbatim>\<open>resource: Dict\<close> (\<^verbatim>\<open>create_resource\<close>, \<^verbatim>\<open>update_resource\<close>) is given by its items;
  \<^verbatim>\<open>resource: Optional[Dict]\<close> of \<^verbatim>\<open>import_resource\<close> and everything that comes from a
  response is a \<open>json\<close>, \<open>JNull\<close> for \<^verbatim>\<open>None\<close>; \<^verbatim>\<open>_id\<close> is \<open>ident\<close>. One operation runs at
  a time: the suspension points of \<^verbatim>\<open>await\<close> are not modelled.
\<close>

record 'w adapter =
  world :: 'w
  calls :: "request list"
  logs :: "log_entry list"
  source :: "(string \<times> json) list"
  destination :: "(string \<times> json) list"
  cache :: "(json \<times> json) list"

text \<open>
  The key under which a dict files an object: lists and dicts are unhashable, and
  \<^verbatim>\<open>True\<close>, \<^verbatim>\<open>False\<close> are the keys \<^verbatim>\<open>1\<close>, \<^verbatim>\<open>0\<close>.
\<close>

fun py_key :: "json \<Rightarrow> error + json" where
  "py_key (JList xs) = Inl TypeError"
| "py_key (JDict kvs) = Inl TypeError"
| "py_key (JBool b) = Inr (JInt (if b then 1 else 0))"
| "py_key v = Inr v"

text \<open>\<^verbatim>\<open>k in c\<close>, \<^verbatim>\<open>c[k]\<close> and \<^verbatim>\<open>c[k] = v\<close> on such a dict.\<close>

definition cache_in :: "json \<Rightarrow> (json \<times> json) list \<Rightarrow> error + bool" where
  "cache_in k c = ebind (py_key k) (\<lambda>k'. Inr (k' \<in> fst ` set c))"

definition cache_item :: "(json \<times> json) list \<Rightarrow> json \<Rightarrow> error + json" where
  "cache_item c k =
     ebind (py_key k) (\<lambda>k'. case map_of c k' of Some v \<Rightarrow> Inr v | None \<Rightarrow> Inl (KeyError k))"

definition cache_set :: "(json \<times> json) list \<Rightarrow> json \<Rightarrow> json \<Rightarrow> error + (json \<times> json) list" where
  "cache_set c k v = ebind (py_key k) (\<lambda>k'. Inr (AList.update k' v c))"

text \<open>
  An operation takes the adapter and returns the value or the exception, with the adapter
  as the operation left it: what was written before an exception stays written.
\<close>

type_synonym ('w, 'a) action = "'w adapter \<Rightarrow> (error + 'a) \<times> 'w adapter"

definition ret :: "'a \<Rightarrow> ('w, 'a) action" where
  "ret x = (\<lambda>s. (Inr x, s))"

definition lift :: "error + 'a \<Rightarrow> ('w, 'a) action" where
  "lift r = (\<lambda>s. (r, s))"

definition seq :: "('w, 'a) action \<Rightarrow> ('a \<Rightarrow> ('w, 'b) action) \<Rightarrow> ('w, 'b) action" where
  "seq m f = (\<lambda>s. case m s of (Inl e, s') \<Rightarrow> (Inl e, s') | (Inr x, s') \<Rightarrow> f x s')"

definition read :: "('w adapter \<Rightarrow> 'a) \<Rightarrow> ('w, 'a) action" where
  "read f = (\<lambda>s. (Inr (f s), s))"

definition modify :: "('w adapter \<Rightarrow> 'w adapter) \<Rightarrow> ('w, unit) action" where
  "modify f = (\<lambda>s. (Inr (), f s))"

text \<open>\<^verbatim>\<open>await client.<method>(...)\<close>: the request is recorded, whatever its outcome.\<close>

definition send :: "'w client \<Rightarrow> request \<Rightarrow> ('w, json) action" where
  "send client rq =
     (\<lambda>s. case client rq (world s) of (r, w) \<Rightarrow> (r, s\<lparr>world := w, calls := calls s @ [rq]\<rparr>))"

text \<open>
  The outcome of an operation as a value, for \<^verbatim>\<open>try: ... except ...\<close>: the handler looks
  at it and raises again what it does not catch.
\<close>

definition attempt :: "('w, 'a) action \<Rightarrow> ('w, error + 'a) action" where
  "attempt m = (\<lambda>s. case m s of (r, s') \<Rightarrow> (Inr r, s'))"

definition log_line :: "log_entry \<Rightarrow> ('w, unit) action" where
  "log_line l = modify (\<lambda>s. s\<lparr>logs := logs s @ [l]\<rparr>)"

text \<open>\<^verbatim>\<open>self.config.state.destination[self.resource_type][_id] = v\<close>.\<close>

definition store_destination :: "string \<Rightarrow> json \<Rightarrow> ('w, unit) action" where
  "store_destination ident v = modify (\<lambda>s. s\<lparr>destination := AList.update ident v (destination s)\<rparr>)"

text \<open>\<^verbatim>\<open>self.config.state.destination[self.resource_type][_id]\<close>: a missing entry raises.\<close>

definition destination_item :: "string \<Rightarrow> ('w, json) action" where
  "destination_item ident =
     seq (read destination) (\<lambda>d.
       lift (case map_of d ident of Some v \<Rightarrow> Inr v | None \<Rightarrow> Inl (KeyError (JStr ident))))"

text \<open>\<^verbatim>\<open>self.config.state.destination[self.resource_type].get(_id, {})\<close>.\<close>

definition destination_get :: "string \<Rightarrow> ('w, json) action" where
  "destination_get ident =
     read (\<lambda>s. case map_of (destination s) ident of Some v \<Rightarrow> v | None \<Rightarrow> JDict [])"

text \<open>The requests that are a POST, the method of a create.\<close>

fun is_post :: "request \<Rightarrow> bool" where
  "is_post (POST p b) = True"
| "is_post _ = False"

text \<open>\<^verbatim>\<open>self.destination_...[k] = v\<close> on the adapter's cache.\<close>

definition cache_store :: "json \<Rightarrow> json \<Rightarrow> ('w, unit) action" where
  "cache_store k v =
     (\<lambda>s. case cache_set (cache s) k v of
            Inl e \<Rightarrow> (Inl e, s)
          | Inr c \<Rightarrow> (Inr (), s\<lparr>cache := c\<rparr>))"


section \<open>AWS integrations\<close>

definition aws_base_path :: string where
  "aws_base_path = ''/api/v1/integration/aws''"

text \<open>\<^verbatim>\<open>AWSIntegration._get_resource_id(resource)\<close>.\<close>

definition aws_get_resource_id :: "json \<Rightarrow> error + string" where
  "aws_get_resource_id resource =
     ebind (py_get resource ''account_id'' (JStr [])) (\<lambda>account_id.
     ebind (py_get resource ''role_name'' (JStr [])) (\<lambda>role_name.
     ebind (py_get resource ''access_key_id'' (JStr [])) (\<lambda>access_key_id.
       if truthy access_key_id then Inr (py_str account_id @ '':'' @ py_str access_key_id)
       else Inr (py_str account_id @ '':'' @ py_str role_name))))"

text \<open>\<^verbatim>\<open>AWSIntegration.get_resources(client)\<close>.\<close>

definition aws_get_resources :: "'w client \<Rightarrow> ('w, json) action" where
  "aws_get_resources client =
     seq (send client (GET aws_base_path)) (\<lambda>resp. lift (py_get resp ''accounts'' (JList [])))"

text \<open>
  The loop of \<^verbatim>\<open>import_resource\<close>: the first listed instance whose identity is \<open>ident\<close>
  replaces \<open>resource\<close>.
\<close>

fun aws_find :: "string \<Rightarrow> json list \<Rightarrow> json \<Rightarrow> error + json" where
  "aws_find ident [] resource = Inr resource"
| "aws_find ident (r # rs) resource =
     ebind (aws_get_resource_id r) (\<lambda>rid. if rid = ident then Inr r else aws_find ident rs resource)"

text \<open>
  \<^verbatim>\<open>AWSIntegration.import_resource(_id, resource)\<close>; \<open>JNull\<close> is \<^verbatim>\<open>resource=None\<close>,
  and \<^verbatim>\<open>if _id:\<close> holds for a string that is not empty.
\<close>

definition aws_import_resource :: "'w client \<Rightarrow> string option \<Rightarrow> json \<Rightarrow> ('w, string \<times> json) action" where
  "aws_import_resource source_client ident resource =
     seq (case ident of
            Some i \<Rightarrow>
              if i \<noteq> [] then
                seq (aws_get_resources source_client) (\<lambda>all_resources.
                seq (lift (py_iter all_resources)) (\<lambda>rs.
                  lift (aws_find i rs resource)))
              else ret resource
          | None \<Rightarrow> ret resource) (\<lambda>resource.
     seq (lift (aws_get_resource_id resource)) (\<lambda>resource_id.
       ret (resource_id, resource)))"




text \<open>The query parameters of \<^verbatim>\<open>update_resource\<close> (lines 179 to 184).\<close>

definition aws_update_params :: "json \<Rightarrow> (string \<times> json) list \<Rightarrow> error + (string \<times> json) list" where
  "aws_update_params dest_resource resource =
     ebind (py_get (JDict resource) ''account_id'' JNull) (\<lambda>r_account_id.
     ebind (py_get dest_resource ''account_id'' r_account_id) (\<lambda>account_id.
     let params = [(''account_id'', account_id)] in
     ebind (py_or (py_get dest_resource ''role_name'' JNull)
                  (py_get (JDict resource) ''role_name'' JNull)) (\<lambda>role.
     if truthy role then
       ebind (py_get (JDict resource) ''role_name'' JNull) (\<lambda>r_role_name.
       ebind (py_get dest_resource ''role_name'' r_role_name) (\<lambda>role_name.
         Inr (AList.update ''role_name'' role_name params)))
     else
       ebind (py_or (py_get dest_resource ''access_key_id'' JNull)
                    (py_get (JDict resource) ''access_key_id'' JNull)) (\<lambda>key.
       if truthy key then
         ebind (py_get (JDict resource) ''access_key_id'' JNull) (\<lambda>r_access_key_id.
         ebind (py_get dest_resource ''access_key_id'' r_access_key_id) (\<lambda>access_key_id.
           Inr (AList.update ''access_key_id'' access_key_id params)))
       else Inr params))))"

text \<open>\<^verbatim>\<open>AWSIntegration.update_resource(_id, resource)\<close>.\<close>

definition aws_update_resource ::
  "'w client \<Rightarrow> string \<Rightarrow> (string \<times> json) list \<Rightarrow> ('w, string \<times> json) action" where
  "aws_update_resource destination_client ident resource =
     seq (destination_get ident) (\<lambda>dest_resource.
     seq (lift (aws_update_params dest_resource resource)) (\<lambda>params.
     seq (send destination_client (PUT aws_base_path (JDict resource) (Some (JDict params)))) (\<lambda>resp.
       ret (ident, JDict (case resp of JDict kvs \<Rightarrow> dict_update resource kvs | _ \<Rightarrow> resource)))))"

text \<open>\<^verbatim>\<open>AWSIntegration.create_resource(_id, resource)\<close>.\<close>

definition aws_create_resource ::
  "'w client \<Rightarrow> string \<Rightarrow> (string \<times> json) list \<Rightarrow> ('w, string \<times> json) action" where
  "aws_create_resource destination_client ident resource =
     seq (lift (aws_get_resource_id (JDict resource))) (\<lambda>resource_id.
     seq (read cache) (\<lambda>destination_integrations.
     seq (lift (cache_in (JStr resource_id) destination_integrations)) (\<lambda>found.
     if found then
       seq (lift (cache_item destination_integrations (JStr resource_id))) (\<lambda>cached.
       seq (store_destination ident cached) (\<lambda>_.
         aws_update_resource destination_client ident resource))
     else
       seq (send destination_client (POST aws_base_path (JDict resource))) (\<lambda>resp.
       seq (lift (py_in ''external_id'' resp)) (\<lambda>has_external_id.
       if has_external_id then
         seq (lift (py_item resp ''external_id'')) (\<lambda>external_id.
           ret (ident, JDict (AList.update ''external_id'' external_id resource)))
       else ret (ident, JDict resource))))))"

text \<open>The body of the request of \<^verbatim>\<open>delete_resource\<close> (lines 205 to 210).\<close>

definition aws_delete_body :: "json \<Rightarrow> error + (string \<times> json) list" where
  "aws_delete_body dest_resource =
     ebind (py_get dest_resource ''account_id'' JNull) (\<lambda>account_id.
     let body = [(''account_id'', account_id)] in
     ebind (py_get dest_resource ''role_name'' JNull) (\<lambda>role_name.
     if truthy role_name then Inr (AList.update ''role_name'' role_name body)
     else
       ebind (py_get dest_resource ''access_key_id'' JNull) (\<lambda>access_key_id.
       if truthy access_key_id then Inr (AList.update ''access_key_id'' access_key_id body)
       else Inr body)))"

text \<open>\<^verbatim>\<open>AWSIntegration.delete_resource(_id)\<close>.\<close>

definition aws_delete_resource :: "'w client \<Rightarrow> string \<Rightarrow> ('w, unit) action" where
  "aws_delete_resource destination_client ident =
     seq (destination_get ident) (\<lambda>dest_resource.
     seq (lift (aws_delete_body dest_resource)) (\<lambda>body.
     seq (send destination_client (DELETE aws_base_path (Some (JDict body)))) (\<lambda>_.
       ret ())))"


section \<open>Azure integrations\<close>

definition azure_base_path :: string where
  "azure_base_path = ''/api/v1/integration/azure''"

text \<open>\<^verbatim>\<open>AzureIntegration._get_resource_id(resource)\<close>.\<close>

definition azure_get_resource_id :: "json \<Rightarrow> error + string" where
  "azure_get_resource_id resource =
     ebind (py_get resource ''tenant_name'' (JStr [])) (\<lambda>tenant_name.
     ebind (py_get resource ''client_id'' (JStr [])) (\<lambda>client_id.
       Inr (py_str tenant_name @ '':'' @ py_str client_id)))"

text \<open>\<^verbatim>\<open>AzureIntegration.get_resources(client)\<close>.\<close>

definition azure_get_resources :: "'w client \<Rightarrow> ('w, json) action" where
  "azure_get_resources client =
     seq (send client (GET azure_base_path)) (\<lambda>resp.
       if is_list resp then ret resp else ret (JList []))"

fun azure_find :: "string \<Rightarrow> json list \<Rightarrow> json \<Rightarrow> error + json" where
  "azure_find ident [] resource = Inr resource"
| "azure_find ident (r # rs) resource =
     ebind (azure_get_resource_id r) (\<lambda>rid.
       if rid = ident then Inr r else azure_find ident rs resource)"

text \<open>\<^verbatim>\<open>AzureIntegration.import_resource(_id, resource)\<close>.\<close>

definition azure_import_resource :: "'w client \<Rightarrow> string option \<Rightarrow> json \<Rightarrow> ('w, string \<times> json) action" where
  "azure_import_resource source_client ident resource =
     seq (case ident of
            Some i \<Rightarrow>
              if i \<noteq> [] then
                seq (azure_get_resources source_client) (\<lambda>all_resources.
                seq (lift (py_iter all_resources)) (\<lambda>rs.
                  lift (azure_find i rs resource)))
              else ret resource
          | None \<Rightarrow> ret resource) (\<lambda>resource.
     seq (lift (azure_get_resource_id resource)) (\<lambda>resource_id.
       ret (resource_id, resource)))"

fun azure_index :: "json list \<Rightarrow> (json \<times> json) list \<Rightarrow> error + (json \<times> json) list" where
  "azure_index [] integrations = Inr integrations"
| "azure_index (r # rs) integrations =
     ebind (azure_get_resource_id r) (\<lambda>resource_id.
     ebind (cache_set integrations (JStr resource_id) r) (\<lambda>integrations'.
       azure_index rs integrations'))"

definition azure_get_destination_integrations :: "'w client \<Rightarrow> ('w, (json \<times> json) list) action" where
  "azure_get_destination_integrations destination_client =
     seq (azure_get_resources destination_client) (\<lambda>resources.
     seq (lift (py_iter resources)) (\<lambda>rs.
       lift (azure_index rs [])))"

text \<open>\<^verbatim>\<open>AzureIntegration.pre_apply_hook()\<close>.\<close>

definition azure_pre_apply_hook :: "'w client \<Rightarrow> ('w, unit) action" where
  "azure_pre_apply_hook destination_client =
     seq (azure_get_destination_integrations destination_client) (\<lambda>integrations.
       modify (\<lambda>s. s\<lparr>cache := integrations\<rparr>))"

text \<open>\<^verbatim>\<open>AzureIntegration.update_resource(_id, resource)\<close>.\<close>

definition azure_update_resource ::
  "'w client \<Rightarrow> string \<Rightarrow> (string \<times> json) list \<Rightarrow> ('w, string \<times> json) action" where
  "azure_update_resource destination_client ident resource =
     seq (send destination_client (PUT azure_base_path (JDict resource) None)) (\<lambda>_.
       ret (ident, JDict resource))"

text \<open>\<^verbatim>\<open>AzureIntegration.create_resource(_id, resource)\<close>.\<close>

definition azure_create_resource ::
  "'w client \<Rightarrow> string \<Rightarrow> (string \<times> json) list \<Rightarrow> ('w, string \<times> json) action" where
  "azure_create_resource destination_client ident resource =
     seq (lift (azure_get_resource_id (JDict resource))) (\<lambda>resource_id.
     seq (read cache) (\<lambda>destination_integrations.
     seq (lift (cache_in (JStr resource_id) destination_integrations)) (\<lambda>found.
     if found then
       seq (lift (cache_item destination_integrations (JStr resource_id))) (\<lambda>cached.
       seq (store_destination ident cached) (\<lambda>_.
         azure_update_resource destination_client ident resource))
     else
       seq (send destination_client (POST azure_base_path (JDict resource))) (\<lambda>_.
         ret (ident, JDict resource)))))"

text \<open>\<^verbatim>\<open>AzureIntegration.delete_resource(_id)\<close>.\<close>

definition azure_delete_resource :: "'w client \<Rightarrow> string \<Rightarrow> ('w, unit) action" where
  "azure_delete_resource destination_client ident =
     seq (destination_get ident) (\<lambda>dest_resource.
     seq (lift (py_get dest_resource ''tenant_name'' JNull)) (\<lambda>tenant_name.
     seq (lift (py_get dest_resource ''client_id'' JNull)) (\<lambda>client_id.
     seq (send destination_client
            (DELETE azure_base_path
               (Some (JDict [(''tenant_name'', tenant_name), (''client_id'', client_id)])))) (\<lambda>_.
       ret ()))))"


section \<open>Fastly accounts\<close>

definition fastly_base_path :: string where
  "fastly_base_path = ''/api/v2/integrations/fastly/accounts''"

text \<open>\<^verbatim>\<open>FastlyIntegration.get_resources(client)\<close>.\<close>

definition fastly_get_resources :: "'w client \<Rightarrow> ('w, json) action" where
  "fastly_get_resources client =
     seq (send client (GET fastly_base_path)) (\<lambda>resp. lift (py_get resp ''data'' (JList [])))"

text \<open>\<^verbatim>\<open>FastlyIntegration.import_resource(_id, resource)\<close>.\<close>

definition fastly_import_resource :: "'w client \<Rightarrow> string option \<Rightarrow> json \<Rightarrow> ('w, json \<times> json) action" where
  "fastly_import_resource source_client ident resource =
     seq (case ident of
            Some i \<Rightarrow>
              if i \<noteq> [] then
                seq (send source_client (GET (fastly_base_path @ ''/'' @ i))) (\<lambda>resp.
                  lift (py_item resp ''data''))
              else ret resource
          | None \<Rightarrow> ret resource) (\<lambda>resource.
     seq (lift (py_item resource ''id'')) (\<lambda>resource_id.
       ret (resource_id, resource)))"

text \<open>The loop of \<^verbatim>\<open>pre_apply_hook\<close>, which fills the cache of the adapter in place.\<close>

fun fastly_fill :: "json list \<Rightarrow> ('w, unit) action" where
  "fastly_fill [] = ret ()"
| "fastly_fill (r # rs) =
     seq (lift (ebind (py_item r ''attributes'') (\<lambda>attributes. py_item attributes ''name''))) (\<lambda>name.
     seq (cache_store name r) (\<lambda>_.
       fastly_fill rs))"

text \<open>\<^verbatim>\<open>FastlyIntegration.pre_apply_hook()\<close>.\<close>

definition fastly_pre_apply_hook :: "'w client \<Rightarrow> ('w, unit) action" where
  "fastly_pre_apply_hook client =
     seq (fastly_get_resources client) (\<lambda>resp.
     seq (modify (\<lambda>s. s\<lparr>cache := []\<rparr>)) (\<lambda>_.
     seq (lift (py_iter resp)) (\<lambda>rs.
       fastly_fill rs)))"

text \<open>\<^verbatim>\<open>FastlyIntegration.update_resource(_id, resource)\<close>.\<close>

definition fastly_update_resource ::
  "'w client \<Rightarrow> string \<Rightarrow> (string \<times> json) list \<Rightarrow> ('w, string \<times> json) action" where
  "fastly_update_resource destination_client ident resource =
     seq (destination_item ident) (\<lambda>entry.
     seq (lift (py_item entry ''id'')) (\<lambda>destination_resource_id.
     let payload = JDict [(''data'', JDict resource)] in
     seq (send destination_client
            (PATCH (fastly_base_path @ ''/'' @ py_str destination_resource_id) payload)) (\<lambda>resp.
     seq (lift (py_item resp ''data'')) (\<lambda>data.
       ret (ident, data)))))"

text \<open>\<^verbatim>\<open>FastlyIntegration.create_resource(_id, resource)\<close>.\<close>

definition fastly_create_resource ::
  "'w client \<Rightarrow> string \<Rightarrow> (string \<times> json) list \<Rightarrow> ('w, string \<times> json) action" where
  "fastly_create_resource destination_client ident resource =
     seq (lift (ebind (py_item (JDict resource) ''attributes'') (\<lambda>attributes.
                  py_item attributes ''name''))) (\<lambda>account_name.
     seq (read cache) (\<lambda>destination_accounts.
     seq (lift (cache_in account_name destination_accounts)) (\<lambda>found.
     if found then
       seq (lift (cache_item destination_accounts account_name)) (\<lambda>cached.
       seq (store_destination ident cached) (\<lambda>_.
         fastly_update_resource destination_client ident resource))
     else
       let payload = JDict [(''data'', JDict resource)] in
       seq (send destination_client (POST fastly_base_path payload)) (\<lambda>resp.
       seq (lift (py_item resp ''data'')) (\<lambda>data.
         ret (ident, data))))))"

text \<open>\<^verbatim>\<open>FastlyIntegration.delete_resource(_id)\<close>.\<close>

definition fastly_delete_resource :: "'w client \<Rightarrow> string \<Rightarrow> ('w, unit) action" where
  "fastly_delete_resource destination_client ident =
     seq (destination_item ident) (\<lambda>entry.
     seq (lift (py_item entry ''id'')) (\<lambda>destination_resource_id.
     seq (send destination_client
            (DELETE (fastly_base_path @ ''/'' @ py_str destination_resource_id) None)) (\<lambda>_.
       ret ())))"


section \<open>GCP accounts\<close>

definition gcp_base_path :: string where
  "gcp_base_path = ''/api/v2/integration/gcp/accounts''"

text \<open>\<^verbatim>\<open>GCPIntegration.get_resources(client)\<close>.\<close>

definition gcp_get_resources :: "'w client \<Rightarrow> ('w, json) action" where
  "gcp_get_resources client =
     seq (send client (GET gcp_base_path)) (\<lambda>resp. lift (py_get resp ''data'' (JList [])))"

text \<open>\<^verbatim>\<open>GCPIntegration.import_resource(_id, resource)\<close>.\<close>

definition gcp_import_resource :: "'w client \<Rightarrow> string option \<Rightarrow> json \<Rightarrow> ('w, json \<times> json) action" where
  "gcp_import_resource source_client ident resource =
     seq (case ident of
            Some i \<Rightarrow>
              if i \<noteq> [] then
                seq (send source_client (GET (gcp_base_path @ ''/'' @ i))) (\<lambda>resp.
                  lift (py_item resp ''data''))
              else ret resource
          | None \<Rightarrow> ret resource) (\<lambda>resource.
     seq (lift (py_item resource ''id'')) (\<lambda>resource_id.
       ret (resource_id, resource)))"

text \<open>\<^verbatim>\<open>x.get("attributes", {}).get("client_email")\<close>.\<close>

definition gcp_client_email :: "json \<Rightarrow> error + json" where
  "gcp_client_email x =
     ebind (py_get x ''attributes'' (JDict [])) (\<lambda>attributes.
       py_get attributes ''client_email'' JNull)"

fun gcp_index :: "json list \<Rightarrow> (json \<times> json) list \<Rightarrow> error + (json \<times> json) list" where
  "gcp_index [] destination_accounts = Inr destination_accounts"
| "gcp_index (account # rs) destination_accounts =
     ebind (gcp_client_email account) (\<lambda>client_email.
     if truthy client_email then
       ebind (cache_set destination_accounts client_email account) (\<lambda>destination_accounts'.
         gcp_index rs destination_accounts')
     else gcp_index rs destination_accounts)"

text \<open>\<^verbatim>\<open>GCPIntegration._get_destination_gcp_accounts()\<close>.\<close>

definition gcp_get_destination_gcp_accounts :: "'w client \<Rightarrow> ('w, (json \<times> json) list) action" where
  "gcp_get_destination_gcp_accounts destination_client =
     seq (gcp_get_resources destination_client) (\<lambda>resp.
     seq (lift (py_iter resp)) (\<lambda>rs.
       lift (gcp_index rs [])))"

text \<open>\<^verbatim>\<open>GCPIntegration.pre_apply_hook()\<close>.\<close>

definition gcp_pre_apply_hook :: "'w client \<Rightarrow> ('w, unit) action" where
  "gcp_pre_apply_hook destination_client =
     seq (gcp_get_destination_gcp_accounts destination_client) (\<lambda>accounts.
       modify (\<lambda>s. s\<lparr>cache := accounts\<rparr>))"

text \<open>\<^verbatim>\<open>GCPIntegration.update_resource(_id, resource)\<close>.\<close>

definition gcp_update_resource ::
  "'w client \<Rightarrow> string \<Rightarrow> (string \<times> json) list \<Rightarrow> ('w, string \<times> json) action" where
  "gcp_update_resource destination_client ident resource =
     seq (destination_item ident) (\<lambda>entry.
     seq (lift (py_item entry ''id'')) (\<lambda>dest_id.
     let payload = JDict [(''data'', JDict resource)] in
     seq (send destination_client (PATCH (gcp_base_path @ ''/'' @ py_str dest_id) payload)) (\<lambda>resp.
     seq (lift (py_item resp ''data'')) (\<lambda>data.
       ret (ident, data)))))"

text \<open>\<^verbatim>\<open>GCPIntegration.create_resource(_id, resource)\<close>.\<close>

definition gcp_create_resource ::
  "'w client \<Rightarrow> string \<Rightarrow> (string \<times> json) list \<Rightarrow> ('w, string \<times> json) action" where
  "gcp_create_resource destination_client ident resource =
     seq (lift (gcp_client_email (JDict resource))) (\<lambda>client_email.
     seq (read cache) (\<lambda>destination_gcp_accounts.
     seq (if truthy client_email then lift (cache_in client_email destination_gcp_accounts)
          else ret False) (\<lambda>found.
     if found then
       seq (lift (cache_item destination_gcp_accounts client_email)) (\<lambda>cached.
       seq (store_destination ident cached) (\<lambda>_.
         gcp_update_resource destination_client ident resource))
     else
       let payload = JDict [(''data'', JDict resource)] in
       seq (send destination_client (POST gcp_base_path payload)) (\<lambda>resp.
       seq (lift (py_item resp ''data'')) (\<lambda>data.
         ret (ident, data))))))"

text \<open>\<^verbatim>\<open>GCPIntegration.delete_resource(_id)\<close>.\<close>

definition gcp_delete_resource :: "'w client \<Rightarrow> string \<Rightarrow> ('w, unit) action" where
  "gcp_delete_resource destination_client ident =
     seq (destination_item ident) (\<lambda>entry.
     seq (lift (py_item entry ''id'')) (\<lambda>dest_id.
     seq (send destination_client (DELETE (gcp_base_path @ ''/'' @ py_str dest_id) None)) (\<lambda>_.
       ret ())))"


section \<open>PagerDuty services\<close>

definition pagerduty_base_path :: string where
  "pagerduty_base_path = ''/api/v1/integration/pagerduty/configuration/services''"

text \<open>\<^verbatim>\<open>PagerDutyIntegration.get_resources(client)\<close>.\<close>

definition pagerduty_get_resources :: "'w client \<Rightarrow> ('w, json) action" where
  "pagerduty_get_resources client =
     seq (send client (GET pagerduty_base_path)) (\<lambda>resp.
       lift (py_get resp ''services'' (JList [])))"

text \<open>\<^verbatim>\<open>PagerDutyIntegration.import_resource(_id, resource)\<close>.\<close>

definition pagerduty_import_resource ::
  "'w client \<Rightarrow> string option \<Rightarrow> json \<Rightarrow> ('w, json \<times> json) action" where
  "pagerduty_import_resource source_client ident resource =
     seq (case ident of
            Some i \<Rightarrow>
              if i \<noteq> [] then send source_client (GET (pagerduty_base_path @ ''/'' @ i))
              else ret resource
          | None \<Rightarrow> ret resource) (\<lambda>resource.
     seq (lift (py_item resource ''service_name'')) (\<lambda>service_name.
       ret (service_name, resource)))"

text \<open>The dict comprehension of \<^verbatim>\<open>get_destination_services\<close>.\<close>

fun pagerduty_index :: "json list \<Rightarrow> (json \<times> json) list \<Rightarrow> error + (json \<times> json) list" where
  "pagerduty_index [] services = Inr services"
| "pagerduty_index (s # rs) services =
     ebind (py_item s ''service_name'') (\<lambda>service_name.
     ebind (cache_set services service_name s) (\<lambda>services'.
       pagerduty_index rs services'))"

text \<open>\<^verbatim>\<open>PagerDutyIntegration.get_destination_services()\<close>.\<close>

definition pagerduty_get_destination_services :: "'w client \<Rightarrow> ('w, (json \<times> json) list) action" where
  "pagerduty_get_destination_services destination_client =
     seq (pagerduty_get_resources destination_client) (\<lambda>services.
     seq (lift (py_iter services)) (\<lambda>rs.
       lift (pagerduty_index rs [])))"

text \<open>\<^verbatim>\<open>PagerDutyIntegration.pre_apply_hook()\<close>.\<close>

definition pagerduty_pre_apply_hook :: "'w client \<Rightarrow> ('w, unit) action" where
  "pagerduty_pre_apply_hook destination_client =
     seq (pagerduty_get_destination_services destination_client) (\<lambda>services.
       modify (\<lambda>s. s\<lparr>cache := services\<rparr>))"

text \<open>\<^verbatim>\<open>PagerDutyIntegration.update_resource(_id, resource)\<close>.\<close>

definition pagerduty_update_resource ::
  "'w client \<Rightarrow> string \<Rightarrow> (string \<times> json) list \<Rightarrow> ('w, string \<times> json) action" where
  "pagerduty_update_resource destination_client ident resource =
     seq (destination_item ident) (\<lambda>entry.
     seq (lift (py_item entry ''service_name'')) (\<lambda>dest_service_name.
     seq (send destination_client
            (PUT (pagerduty_base_path @ ''/'' @ py_str dest_service_name) (JDict resource) None)) (\<lambda>resp.
       ret (ident, resp))))"

text \<open>\<^verbatim>\<open>PagerDutyIntegration.create_resource(_id, resource)\<close>.\<close>

definition pagerduty_create_resource ::
  "'w client \<Rightarrow> string \<Rightarrow> (string \<times> json) list \<Rightarrow> ('w, string \<times> json) action" where
  "pagerduty_create_resource destination_client ident resource =
     seq (lift (py_item (JDict resource) ''service_name'')) (\<lambda>service_name.
     seq (read cache) (\<lambda>destination_services.
     seq (lift (cache_in service_name destination_services)) (\<lambda>found.
     if found then
       seq (lift (cache_item destination_services service_name)) (\<lambda>cached.
       seq (store_destination ident cached) (\<lambda>_.
         pagerduty_update_resource destination_client ident resource))
     else
       seq (send destination_client (POST pagerduty_base_path (JDict resource))) (\<lambda>resp.
         ret (ident, resp)))))"

text \<open>\<^verbatim>\<open>PagerDutyIntegration.delete_resource(_id)\<close>.\<close>

definition pagerduty_delete_resource :: "'w client \<Rightarrow> string \<Rightarrow> ('w, unit) action" where
  "pagerduty_delete_resource destination_client ident =
     seq (destination_item ident) (\<lambda>entry.
     seq (lift (py_item entry ''service_name'')) (\<lambda>dest_service_name.
     seq (send destination_client
            (DELETE (pagerduty_base_path @ ''/'' @ py_str dest_service_name) None)) (\<lambda>_.
       ret ())))"


section \<open>Webhooks\<close>

definition webhooks_base_path :: string where
  "webhooks_base_path = ''/api/v1/integration/webhooks/configuration/webhooks''"

text \<open>\<^verbatim>\<open>WebhooksIntegration.get_resources(client)\<close>: a warning and the empty list.\<close>

definition webhooks_get_resources :: "'w client \<Rightarrow> ('w, json) action" where
  "webhooks_get_resources client =
     seq (log_line (LogWarning (''Webhooks Integration API does not support listing all webhooks. ''
            @ ''Please use --filter to specify webhook names, or use import with specific webhook names.'')
            None)) (\<lambda>_.
       ret (JList []))"

text \<open>\<^verbatim>\<open>WebhooksIntegration.import_resource(_id, resource)\<close>.\<close>

definition webhooks_import_resource ::
  "'w client \<Rightarrow> string option \<Rightarrow> json \<Rightarrow> ('w, json \<times> json) action" where
  "webhooks_import_resource source_client ident resource =
     seq (case ident of
            Some i \<Rightarrow>
              if i \<noteq> [] then send source_client (GET (webhooks_base_path @ ''/'' @ i))
              else ret resource
          | None \<Rightarrow> ret resource) (\<lambda>resource.
     seq (lift (py_item resource ''name'')) (\<lambda>name.
       ret (name, resource)))"

text \<open>The two lines the handlers of \<^verbatim>\<open>get_destination_webhooks\<close> log.\<close>

definition webhook_not_found :: "json \<Rightarrow> log_entry" where
  "webhook_not_found webhook_name =
     LogDebug (''Webhook '' @ [CHR 0x27] @ py_str webhook_name @ [CHR 0x27] @ '' not found at destination'')"

definition webhook_fetch_error :: "json \<Rightarrow> error \<Rightarrow> log_entry" where
  "webhook_fetch_error webhook_name e =
     LogWarning (''Error fetching webhook '' @ [CHR 0x27] @ py_str webhook_name @ [CHR 0x27] @ '': '')
       (Some e)"

text \<open>
  The first loop of \<^verbatim>\<open>get_destination_webhooks\<close>, over the items of
  \<^verbatim>\<open>state.destination[resource_type]\<close>.
\<close>

fun webhooks_check_destination ::
  "'w client \<Rightarrow> (string \<times> json) list \<Rightarrow> (json \<times> json) list \<Rightarrow> ('w, (json \<times> json) list) action" where
  "webhooks_check_destination destination_client [] destination_webhooks = ret destination_webhooks"
| "webhooks_check_destination destination_client (item # items) destination_webhooks =
     seq (lift (py_get (snd item) ''name'' JNull)) (\<lambda>webhook_name.
     if truthy webhook_name then
       seq (attempt (send destination_client
                       (GET (webhooks_base_path @ ''/'' @ py_str webhook_name)))) (\<lambda>outcome.
       case outcome of
         Inr resp \<Rightarrow>
           seq (lift (cache_set destination_webhooks webhook_name resp)) (\<lambda>destination_webhooks'.
             webhooks_check_destination destination_client items destination_webhooks')
       | Inl (HTTPError status_code) \<Rightarrow>
           seq (log_line (if status_code = 404 then webhook_not_found webhook_name
                          else webhook_fetch_error webhook_name (HTTPError status_code))) (\<lambda>_.
             webhooks_check_destination destination_client items destination_webhooks)
       | Inl e \<Rightarrow> lift (Inl e))
     else webhooks_check_destination destination_client items destination_webhooks)"

text \<open>The second loop, over the items of \<^verbatim>\<open>state.source[resource_type]\<close>.\<close>

fun webhooks_check_source ::
  "'w client \<Rightarrow> (string \<times> json) list \<Rightarrow> (json \<times> json) list \<Rightarrow> ('w, (json \<times> json) list) action" where
  "webhooks_check_source destination_client [] destination_webhooks = ret destination_webhooks"
| "webhooks_check_source destination_client (item # items) destination_webhooks =
     seq (lift (py_get (snd item) ''name'' JNull)) (\<lambda>webhook_name.
     seq (if truthy webhook_name then
            lift (ebind (cache_in webhook_name destination_webhooks) (\<lambda>found. Inr (\<not> found)))
          else ret False) (\<lambda>missing.
     if missing then
       seq (attempt (send destination_client
                       (GET (webhooks_base_path @ ''/'' @ py_str webhook_name)))) (\<lambda>outcome.
       case outcome of
         Inr resp \<Rightarrow>
           seq (lift (cache_set destination_webhooks webhook_name resp)) (\<lambda>destination_webhooks'.
             webhooks_check_source destination_client items destination_webhooks')
       | Inl (HTTPError status_code) \<Rightarrow>
           seq (if status_code = 404 then ret ()
                else log_line (webhook_fetch_error webhook_name (HTTPError status_code))) (\<lambda>_.
             webhooks_check_source destination_client items destination_webhooks)
       | Inl e \<Rightarrow> lift (Inl e))
     else webhooks_check_source destination_client items destination_webhooks))"

text \<open>\<^verbatim>\<open>WebhooksIntegration.get_destination_webhooks()\<close>.\<close>

definition webhooks_get_destination_webhooks :: "'w client \<Rightarrow> ('w, (json \<times> json) list) action" where
  "webhooks_get_destination_webhooks destination_client =
     seq (read destination) (\<lambda>destination_items.
     seq (webhooks_check_destination destination_client destination_items []) (\<lambda>destination_webhooks.
     seq (read source) (\<lambda>source_items.
       webhooks_check_source destination_client source_items destination_webhooks)))"

text \<open>\<^verbatim>\<open>WebhooksIntegration.pre_apply_hook()\<close>.\<close>

definition webhooks_pre_apply_hook :: "'w client \<Rightarrow> ('w, unit) action" where
  "webhooks_pre_apply_hook destination_client =
     seq (webhooks_get_destination_webhooks destination_client) (\<lambda>destination_webhooks.
       modify (\<lambda>s. s\<lparr>cache := destination_webhooks\<rparr>))"

text \<open>\<^verbatim>\<open>WebhooksIntegration.update_resource(_id, resource)\<close>.\<close>

definition webhooks_update_resource ::
  "'w client \<Rightarrow> string \<Rightarrow> (string \<times> json) list \<Rightarrow> ('w, string \<times> json) action" where
  "webhooks_update_resource destination_client ident resource =
     seq (destination_item ident) (\<lambda>entry.
     seq (lift (py_item entry ''name'')) (\<lambda>webhook_name.
     seq (send destination_client
            (PUT (webhooks_base_path @ ''/'' @ py_str webhook_name) (JDict resource) None)) (\<lambda>resp.
       ret (ident, resp))))"

text \<open>\<^verbatim>\<open>WebhooksIntegration.create_resource(_id, resource)\<close>.\<close>

definition webhooks_create_resource ::
  "'w client \<Rightarrow> string \<Rightarrow> (string \<times> json) list \<Rightarrow> ('w, string \<times> json) action" where
  "webhooks_create_resource destination_client ident resource =
     seq (lift (py_item (JDict resource) ''name'')) (\<lambda>name.
     seq (read cache) (\<lambda>destination_webhooks.
     seq (lift (cache_in name destination_webhooks)) (\<lambda>found.
     if found then
       seq (lift (cache_item destination_webhooks name)) (\<lambda>cached.
       seq (store_destination ident cached) (\<lambda>_.
         webhooks_update_resource destination_client ident resource))
     else
       seq (send destination_client (POST webhooks_base_path (JDict resource))) (\<lambda>resp.
         ret (ident, resp)))))"

text \<open>\<^verbatim>\<open>WebhooksIntegration.delete_resource(_id)\<close>.\<close>

definition webhooks_delete_resource :: "'w client \<Rightarrow> string \<Rightarrow> ('w, unit) action" where
  "webhooks_delete_resource destination_client ident =
     seq (destination_item ident) (\<lambda>entry.
     seq (lift (py_item entry ''name'')) (\<lambda>webhook_name.
     seq (send destination_client
            (DELETE (webhooks_base_path @ ''/'' @ py_str webhook_name) None)) (\<lambda>_.
       ret ())))"


section \<open>Slack channels\<close>

definition slack_base_path :: string where
  "slack_base_path = ''/api/v1/integration/slack/configuration/accounts''"

text \<open>
  The inner loop of \<^verbatim>\<open>get_resources\<close>: every channel is tagged with the account and
  appended; the result is the exception that stopped the loop, if any, with
  \<^verbatim>\<open>all_channels\<close> as the loop left it.
\<close>

fun slack_tag_channels :: "json \<Rightarrow> json list \<Rightarrow> json list \<Rightarrow> error option \<times> json list" where
  "slack_tag_channels account_name [] all_channels = (None, all_channels)"
| "slack_tag_channels account_name (channel # channels) all_channels =
     (case py_setitem channel ''_account_name'' account_name of
        Inl e \<Rightarrow> (Some e, all_channels)
      | Inr channel' \<Rightarrow> slack_tag_channels account_name channels (all_channels @ [channel']))"

definition slack_channels_error :: "json \<Rightarrow> error \<Rightarrow> log_entry" where
  "slack_channels_error account_name e =
     LogWarning (''Error fetching channels for account '' @ py_str account_name @ '': '') (Some e)"

text \<open>The outer loop of \<^verbatim>\<open>get_resources\<close>, over the accounts.\<close>

fun slack_visit_accounts :: "'w client \<Rightarrow> json list \<Rightarrow> json list \<Rightarrow> ('w, json list) action" where
  "slack_visit_accounts client [] all_channels = ret all_channels"
| "slack_visit_accounts client (account # accounts) all_channels =
     seq (lift (ebind (py_get account ''account_name'' (JStr [])) (\<lambda>d. py_get account ''name'' d)))
       (\<lambda>account_name.
     if \<not> truthy account_name then slack_visit_accounts client accounts all_channels
     else
       let channels_path = slack_base_path @ ''/'' @ py_str account_name @ ''/channels'' in
       seq (attempt (send client (GET channels_path))) (\<lambda>outcome.
       case outcome of
         Inl e \<Rightarrow>
           seq (log_line (slack_channels_error account_name e)) (\<lambda>_.
             slack_visit_accounts client accounts all_channels)
       | Inr channels_resp \<Rightarrow>
           let channels = (case channels_resp of JList xs \<Rightarrow> xs | _ \<Rightarrow> []) in
           (case slack_tag_channels account_name channels all_channels of
              (None, all_channels') \<Rightarrow> slack_visit_accounts client accounts all_channels'
            | (Some e, all_channels') \<Rightarrow>
                seq (log_line (slack_channels_error account_name e)) (\<lambda>_.
                  slack_visit_accounts client accounts all_channels'))))"

text \<open>\<^verbatim>\<open>SlackIntegrationChannels.get_resources(client)\<close>.\<close>

definition slack_get_resources :: "'w client \<Rightarrow> ('w, json) action" where
  "slack_get_resources client =
     seq (send client (GET slack_base_path)) (\<lambda>accounts_resp.
     let accounts = (case accounts_resp of JList xs \<Rightarrow> xs | _ \<Rightarrow> []) in
     seq (slack_visit_accounts client accounts []) (\<lambda>all_channels.
       ret (JList all_channels)))"

text \<open>\<^verbatim>\<open>SlackIntegrationChannels._get_composite_id(resource)\<close>.\<close>

definition slack_get_composite_id :: "json \<Rightarrow> error + string" where
  "slack_get_composite_id resource =
     ebind (py_get resource ''_account_name'' (JStr [])) (\<lambda>account_name.
     ebind (py_get resource ''name'' (JStr [])) (\<lambda>name.
     ebind (py_get resource ''channel_name'' name) (\<lambda>channel_name.
       Inr (py_str account_name @ '':'' @ py_str channel_name))))"

text \<open>\<^verbatim>\<open>SlackIntegrationChannels._parse_composite_id(composite_id)\<close>.\<close>

definition slack_parse_composite_id :: "string \<Rightarrow> string \<times> string" where
  "slack_parse_composite_id composite_id =
     (let parts = split1 CHR '':'' composite_id in
      if length parts = 2 then (parts ! 0, parts ! 1) else ([], composite_id))"

text \<open>
  \<^verbatim>\<open>SlackIntegrationChannels._prepare_payload(resource)\<close>: the copy \<^verbatim>\<open>dict(resource)\<close>
  without the key \<^verbatim>\<open>_account_name\<close>.
\<close>

definition slack_prepare_payload :: "(string \<times> json) list \<Rightarrow> (string \<times> json) list" where
  "slack_prepare_payload resource = AList.delete ''_account_name'' resource"

text \<open>\<^verbatim>\<open>SlackIntegrationChannels.import_resource(_id, resource)\<close>.\<close>

definition slack_import_resource ::
  "'w client \<Rightarrow> string option \<Rightarrow> json \<Rightarrow> ('w, string \<times> json) action" where
  "slack_import_resource source_client ident resource =
     seq (case ident of
            Some i \<Rightarrow>
              if i \<noteq> [] then
                (case slack_parse_composite_id i of (account_name, channel_name) \<Rightarrow>
                   let channel_path = slack_base_path @ ''/'' @ account_name @ ''/channels/'' @ channel_name in
                   seq (send source_client (GET channel_path)) (\<lambda>resp.
                     lift (py_setitem resp ''_account_name'' (JStr account_name))))
              else ret resource
          | None \<Rightarrow> ret resource) (\<lambda>resource.
     seq (lift (slack_get_composite_id resource)) (\<lambda>composite_id.
       ret (composite_id, resource)))"

text \<open>The loop of \<^verbatim>\<open>pre_apply_hook\<close>, which fills the cache of the adapter in place.\<close>

fun slack_fill :: "json list \<Rightarrow> ('w, unit) action" where
  "slack_fill [] = ret ()"
| "slack_fill (channel # channels) =
     seq (lift (slack_get_composite_id channel)) (\<lambda>composite_id.
     seq (cache_store (JStr composite_id) channel) (\<lambda>_.
       slack_fill channels))"

text \<open>\<^verbatim>\<open>SlackIntegrationChannels.pre_apply_hook()\<close>.\<close>

definition slack_pre_apply_hook :: "'w client \<Rightarrow> ('w, unit) action" where
  "slack_pre_apply_hook client =
     seq (slack_get_resources client) (\<lambda>resp.
     seq (modify (\<lambda>s. s\<lparr>cache := []\<rparr>)) (\<lambda>_.
     seq (lift (py_iter resp)) (\<lambda>channels.
       slack_fill channels)))"

text \<open>\<^verbatim>\<open>SlackIntegrationChannels.update_resource(_id, resource)\<close>.\<close>

definition slack_update_resource ::
  "'w client \<Rightarrow> string \<Rightarrow> (string \<times> json) list \<Rightarrow> ('w, string \<times> json) action" where
  "slack_update_resource destination_client ident resource =
     (case slack_parse_composite_id ident of (account_name, channel_name) \<Rightarrow>
        let channel_path = slack_base_path @ ''/'' @ account_name @ ''/channels/'' @ channel_name;
            payload = slack_prepare_payload resource in
        seq (send destination_client (PATCH channel_path (JDict payload))) (\<lambda>resp.
        seq (lift (py_setitem resp ''_account_name'' (JStr account_name))) (\<lambda>resp'.
          ret (ident, resp'))))"

text \<open>\<^verbatim>\<open>SlackIntegrationChannels.create_resource(_id, resource)\<close>.\<close>

definition slack_create_resource ::
  "'w client \<Rightarrow> string \<Rightarrow> (string \<times> json) list \<Rightarrow> ('w, string \<times> json) action" where
  "slack_create_resource destination_client ident resource =
     seq (read cache) (\<lambda>destination_channels.
     seq (lift (cache_in (JStr ident) destination_channels)) (\<lambda>found.
     if found then
       seq (lift (cache_item destination_channels (JStr ident))) (\<lambda>cached.
       seq (store_destination ident cached) (\<lambda>_.
         slack_update_resource destination_client ident resource))
     else
       seq (lift (py_get (JDict resource) ''_account_name'' (JStr []))) (\<lambda>account_name.
       let channels_path = slack_base_path @ ''/'' @ py_str account_name @ ''/channels'';
           payload = slack_prepare_payload resource in
       seq (send destination_client (POST channels_path (JDict payload))) (\<lambda>resp.
       seq (lift (py_setitem resp ''_account_name'' account_name)) (\<lambda>resp'.
         ret (ident, resp'))))))"

text \<open>\<^verbatim>\<open>SlackIntegrationChannels.delete_resource(_id)\<close>.\<close>

definition slack_delete_resource :: "'w client \<Rightarrow> string \<Rightarrow> ('w, unit) action" where
  "slack_delete_resource destination_client ident =
     (case slack_parse_composite_id ident of (account_name, channel_name) \<Rightarrow>
        let channel_path = slack_base_path @ ''/'' @ account_name @ ''/channels/'' @ channel_name in
        seq (send destination_client (DELETE channel_path None)) (\<lambda>_.
          ret ()))"

text \<open>
  \<^verbatim>\<open>_prepare_payload\<close> once more, on a heap of dict objects, to tell the copy from its
  argument: an address is an index of the heap, \<^verbatim>\<open>dict(resource)\<close> allocates a new
  object with the items of the object at \<open>resource\<close>, and \<^verbatim>\<open>pop\<close> writes to the new
  object. The result is the address of the payload and the heap after the call; an
  address that is not allocated has none. The values of the items are shared by the copy
  and are not written by either statement.
\<close>

definition slack_prepare_payload_heap ::
  "(string \<times> json) list list \<Rightarrow> nat \<Rightarrow> (nat \<times> (string \<times> json) list list) option" where
  "slack_prepare_payload_heap heap resource =
     (if resource < length heap then
        let payload = length heap;
            heap1 = heap @ [heap ! resource];
            heap2 = heap1[payload := AList.delete ''_account_name'' (heap1 ! payload)]
        in Some (payload, heap2)
      else None)"


section \<open>Service definitions\<close>

text \<open>
  \<^verbatim>\<open>total_count - fetched\<close> with \<open>fetched\<close> an integer: a boolean counts as 0 or 1, any
  other object raises.
\<close>

fun py_minus_int :: "json \<Rightarrow> int \<Rightarrow> error + int" where
  "py_minus_int (JInt n) m = Inr (n - m)"
| "py_minus_int (JBool b) m = Inr ((if b then 1 else 0) - m)"
| "py_minus_int _ m = Inl TypeError"

text \<open>\<^verbatim>\<open>service_definition._remaining_func(idx, resp, page_size, page_number)\<close>.\<close>

definition remaining_func :: "int \<Rightarrow> json \<Rightarrow> int \<Rightarrow> int \<Rightarrow> error + int" where
  "remaining_func idx resp page_size page_number =
     ebind (py_get resp ''meta'' (JDict [])) (\<lambda>meta.
     ebind (py_get meta ''page'' (JDict [])) (\<lambda>page.
     ebind (py_get page ''total_count'' (JInt 0)) (\<lambda>total_count.
       let fetched = page_size * (page_number + 1) in
       ebind (py_minus_int total_count fetched) (\<lambda>d. Inr (max 0 d)))))"

text \<open>
  The first line of \<^verbatim>\<open>_remaining_func\<close> alone:
  \<^verbatim>\<open>resp.get("meta", {}).get("page", {}).get("total_count", 0)\<close>.
\<close>

definition total_count_of :: "json \<Rightarrow> error + json" where
  "total_count_of resp =
     ebind (py_get resp ''meta'' (JDict [])) (\<lambda>meta.
     ebind (py_get meta ''page'' (JDict [])) (\<lambda>page.
       py_get page ''total_count'' (JInt 0)))"

text \<open>
  Modelled from the spec: the pagination driver (\<^verbatim>\<open>CustomClient.paginated_request\<close>,
  not among the sources). Section 4.3: given a list operation, a page size and a
  remaining function, it repeatedly issues a page request advancing the page number,
  accumulates the results, and stops when the remaining function returns 0 or the
  response is empty. \<open>fetch\<close> is the list operation by page number and \<open>items_of\<close> reads
  the items of a response; the result is the accumulated items with the number of page
  requests issued. A driver that never stops has the value \<open>None\<close>.
\<close>

partial_function (option) paginate ::
  "(int \<Rightarrow> json) \<Rightarrow> (json \<Rightarrow> json list) \<Rightarrow> (int \<Rightarrow> json \<Rightarrow> int \<Rightarrow> int \<Rightarrow> error + int)
    \<Rightarrow> int \<Rightarrow> int \<Rightarrow> int \<Rightarrow> json list \<Rightarrow> nat \<Rightarrow> (error + json list \<times> nat) option" where
  "paginate fetch items_of remaining page_size idx page_number acc n =
     (let resp = fetch page_number in
      if items_of resp = [] then Some (Inr (acc, Suc n))
      else (case remaining idx resp page_size page_number of
              Inl e \<Rightarrow> Some (Inl e)
            | Inr r \<Rightarrow>
                if r = 0 then Some (Inr (acc @ items_of resp, Suc n))
                else paginate fetch items_of remaining page_size (idx + 1) (page_number + 1)
                       (acc @ items_of resp) (Suc n)))"

text \<open>
  \<^verbatim>\<open>PaginationConfig(page_size=100, remaining_func=_remaining_func)\<close>, the
  \<^verbatim>\<open>pagination_config\<close> of the class.
\<close>

record pagination_config =
  page_size :: int
  remaining_function :: "int \<Rightarrow> json \<Rightarrow> int \<Rightarrow> int \<Rightarrow> error + int"

definition sd_pagination_config :: pagination_config where
  "sd_pagination_config = \<lparr>page_size = 100, remaining_function = remaining_func\<rparr>"

definition sd_base_path :: string where
  "sd_base_path = ''/api/v2/services/definitions''"

text \<open>
  \<^verbatim>\<open>ServiceDefinition.get_resources(client)\<close>. The driver
  \<^verbatim>\<open>client.paginated_request(client.get)\<close> belongs to the client, which is not among the
  sources: it is the parameter \<open>paginated_request\<close>, called with the path and the
  pagination configuration.
\<close>

definition sd_get_resources ::
  "(string \<Rightarrow> pagination_config \<Rightarrow> ('w, json) action) \<Rightarrow> ('w, json) action" where
  "sd_get_resources paginated_request = paginated_request sd_base_path sd_pagination_config"

text \<open>\<^verbatim>\<open>ServiceDefinition._get_service_name(resource)\<close>.\<close>

definition sd_get_service_name :: "json \<Rightarrow> error + json" where
  "sd_get_service_name resource =
     ebind (py_in ''attributes'' resource) (\<lambda>has_attributes.
     ebind (if has_attributes then
              ebind (py_item resource ''attributes'') (\<lambda>attributes.
              ebind (py_get attributes ''schema'' (JDict [])) (\<lambda>schema.
              ebind (py_in ''dd-service'' schema) (\<lambda>has_dd_service.
              if has_dd_service then ebind (py_item schema ''dd-service'') (\<lambda>v. Inr (Some v))
              else
                ebind (py_in ''name'' schema) (\<lambda>has_name.
                if has_name then ebind (py_item schema ''name'') (\<lambda>v. Inr (Some v))
                else Inr None))))
            else Inr None) (\<lambda>returned.
     case returned of
       Some v \<Rightarrow> Inr v
     | None \<Rightarrow>
         ebind (py_in ''dd-service'' resource) (\<lambda>has_dd_service.
         if has_dd_service then py_item resource ''dd-service''
         else
           ebind (py_in ''name'' resource) (\<lambda>has_name.
           if has_name then py_item resource ''name''
           else py_get resource ''id'' (JStr [])))))"

text \<open>\<^verbatim>\<open>ServiceDefinition._extract_schema_data(resource)\<close>.\<close>

definition sd_extract_schema_data :: "json \<Rightarrow> error + json" where
  "sd_extract_schema_data resource =
     ebind (py_in ''attributes'' resource) (\<lambda>has_attributes.
     ebind (if has_attributes then
              ebind (py_item resource ''attributes'') (\<lambda>attributes. py_in ''schema'' attributes)
            else Inr False) (\<lambda>has_schema.
     if has_schema then
       ebind (py_item resource ''attributes'') (\<lambda>attributes. py_item attributes ''schema'')
     else Inr resource))"

text \<open>\<^verbatim>\<open>ServiceDefinition.import_resource(_id, resource)\<close>.\<close>

definition sd_import_resource :: "'w client \<Rightarrow> string option \<Rightarrow> json \<Rightarrow> ('w, json \<times> json) action" where
  "sd_import_resource source_client ident resource =
     seq (case ident of
            Some i \<Rightarrow>
              if i \<noteq> [] then
                seq (send source_client (GET (sd_base_path @ ''/'' @ i))) (\<lambda>resp.
                  lift (py_item resp ''data''))
              else ret resource
          | None \<Rightarrow> ret resource) (\<lambda>resource.
     seq (lift (sd_get_service_name resource)) (\<lambda>service_name.
       ret (service_name, resource)))"

fun sd_index :: "json list \<Rightarrow> (json \<times> json) list \<Rightarrow> error + (json \<times> json) list" where
  "sd_index [] service_definitions = Inr service_definitions"
| "sd_index (service_def # rs) service_definitions =
     ebind (sd_get_service_name service_def) (\<lambda>service_name.
     if truthy service_name then
       ebind (cache_set service_definitions service_name service_def) (\<lambda>service_definitions'.
         sd_index rs service_definitions')
     else sd_index rs service_definitions)"

text \<open>\<^verbatim>\<open>ServiceDefinition._get_destination_service_definitions()\<close>.\<close>

definition sd_get_destination_service_definitions ::
  "(string \<Rightarrow> pagination_config \<Rightarrow> ('w, json) action) \<Rightarrow> ('w, (json \<times> json) list) action" where
  "sd_get_destination_service_definitions paginated_request =
     seq (sd_get_resources paginated_request) (\<lambda>resp.
     seq (lift (py_iter resp)) (\<lambda>rs.
       lift (sd_index rs [])))"

text \<open>\<^verbatim>\<open>ServiceDefinition.pre_apply_hook()\<close>.\<close>

definition sd_pre_apply_hook ::
  "(string \<Rightarrow> pagination_config \<Rightarrow> ('w, json) action) \<Rightarrow> ('w, unit) action" where
  "sd_pre_apply_hook paginated_request =
     seq (sd_get_destination_service_definitions paginated_request) (\<lambda>service_definitions.
       modify (\<lambda>s. s\<lparr>cache := service_definitions\<rparr>))"

text \<open>
  The value both \<^verbatim>\<open>create_resource\<close> and \<^verbatim>\<open>update_resource\<close> return:
  \<^verbatim>\<open>resp["data"][0] if isinstance(resp.get("data"), list) else resp["data"]\<close>.
\<close>

definition sd_response_data :: "json \<Rightarrow> error + json" where
  "sd_response_data resp =
     ebind (py_get resp ''data'' JNull) (\<lambda>data.
     if is_list data then ebind (py_item resp ''data'') py_first
     else py_item resp ''data'')"

text \<open>\<^verbatim>\<open>ServiceDefinition.update_resource(_id, resource)\<close>.\<close>

definition sd_update_resource ::
  "'w client \<Rightarrow> string \<Rightarrow> (string \<times> json) list \<Rightarrow> ('w, string \<times> json) action" where
  "sd_update_resource destination_client ident resource =
     seq (lift (sd_extract_schema_data (JDict resource))) (\<lambda>schema_data.
     seq (send destination_client (POST sd_base_path schema_data)) (\<lambda>resp.
     seq (lift (sd_response_data resp)) (\<lambda>data.
       ret (ident, data))))"

text \<open>\<^verbatim>\<open>ServiceDefinition.create_resource(_id, resource)\<close>.\<close>

definition sd_create_resource ::
  "'w client \<Rightarrow> string \<Rightarrow> (string \<times> json) list \<Rightarrow> ('w, string \<times> json) action" where
  "sd_create_resource destination_client ident resource =
     seq (read cache) (\<lambda>destination_service_definitions.
     seq (lift (cache_in (JStr ident) destination_service_definitions)) (\<lambda>found.
     if found then
       seq (lift (cache_item destination_service_definitions (JStr ident))) (\<lambda>cached.
       seq (store_destination ident cached) (\<lambda>_.
         sd_update_resource destination_client ident resource))
     else
       seq (lift (sd_extract_schema_data (JDict resource))) (\<lambda>schema_data.
       seq (send destination_client (POST sd_base_path schema_data)) (\<lambda>resp.
       seq (lift (sd_response_data resp)) (\<lambda>data.
         ret (ident, data))))))"

text \<open>\<^verbatim>\<open>ServiceDefinition.delete_resource(_id)\<close>.\<close>

definition sd_delete_resource :: "'w client \<Rightarrow> string \<Rightarrow> ('w, unit) action" where
  "sd_delete_resource destination_client ident =
     seq (send destination_client (DELETE (sd_base_path @ ''/'' @ ident) None)) (\<lambda>_.
       ret ())"


section \<open>Notions used in the statements\<close>

text \<open>The adapter once \<open>v\<close> is stored at \<^verbatim>\<open>state.destination[resource_type][_id]\<close>.\<close>

abbreviation stored :: "string \<Rightarrow> json \<Rightarrow> 'w adapter \<Rightarrow> 'w adapter" where
  "stored ident v s \<equiv> s\<lparr>destination := AList.update ident v (destination s)\<rparr>"


text \<open>
  A State Store entry of a webhook as the tool writes it: a mapping whose \<^verbatim>\<open>name\<close>, when
  it has one, is a string.
\<close>

fun webhook_entry :: "json \<Rightarrow> bool" where
  "webhook_entry (JDict d) =
     (case map_of d ''name'' of None \<Rightarrow> True | Some (JStr nm) \<Rightarrow> True | Some _ \<Rightarrow> False)"
| "webhook_entry _ = False"

text \<open>A client whose only exceptions are HTTP errors (\<^verbatim>\<open>CustomClientHTTPError\<close>).\<close>

definition http_only :: "'w client \<Rightarrow> bool" where
  "http_only client = (\<forall>rq w e. fst (client rq w) = Inl e \<longrightarrow> (\<exists>c. e = HTTPError c))"

text \<open>The request that fetches the webhook named \<open>nm\<close>.\<close>

definition webhook_fetch :: "string \<Rightarrow> request" where
  "webhook_fetch nm = GET (webhooks_base_path @ ''/'' @ nm)"

text \<open>
  The names the first loop of \<^verbatim>\<open>get_destination_webhooks\<close> fetches: those of the
  entries whose \<^verbatim>\<open>name\<close> is a string that is not empty, in the order of the entries.
\<close>

fun webhook_names :: "(string \<times> json) list \<Rightarrow> string list" where
  "webhook_names [] = []"
| "webhook_names (item # items) =
     (case snd item of
        JDict d \<Rightarrow>
          (case map_of d ''name'' of
             Some (JStr nm) \<Rightarrow> if nm \<noteq> [] then nm # webhook_names items else webhook_names items
           | _ \<Rightarrow> webhook_names items)
      | _ \<Rightarrow> webhook_names items)"

text \<open>
  What the destination answers when the webhook named \<open>nm\<close> is fetched, whatever the
  state of the account: always the HTTP error \<open>c\<close>, or always a body.
\<close>

definition fetch_fails :: "'w client \<Rightarrow> string \<Rightarrow> nat \<Rightarrow> bool" where
  "fetch_fails client nm c = (\<forall>w. \<exists>w'. client (webhook_fetch nm) w = (Inl (HTTPError c), w'))"

definition fetch_succeeds :: "'w client \<Rightarrow> string \<Rightarrow> bool" where
  "fetch_succeeds client nm = (\<forall>w. \<exists>resp w'. client (webhook_fetch nm) w = (Inr resp, w'))"

text \<open>The body a request carries, if any.\<close>

fun request_body :: "request \<Rightarrow> json option" where
  "request_body (GET p) = None"
| "request_body (POST p b) = Some b"
| "request_body (PUT p b q) = Some b"
| "request_body (PATCH p b) = Some b"
| "request_body (DELETE p b) = b"

fun is_patch :: "request \<Rightarrow> bool" where
  "is_patch (PATCH p b) = True"
| "is_patch _ = False"


section \<open>Concrete inputs\<close>

text \<open>
  A client that answers every request with an empty object, a resource with the identity
  fields of every adapter, an instance as the destination lists it, and an adapter whose
  cache holds that instance under the keys the resource is looked up by.
\<close>

definition example_client :: "unit client" where
  "example_client rq w = (Inr (JDict []), w)"

definition example_resource :: "(string \<times> json) list" where
  "example_resource =
     [(''account_id'', JStr ''1''), (''role_name'', JStr ''R''),
      (''tenant_name'', JStr ''1''), (''client_id'', JStr ''R''),
      (''attributes'', JDict [(''name'', JStr ''n''), (''client_email'', JStr ''n'')]),
      (''service_name'', JStr ''n''), (''name'', JStr ''n''), (''_account_name'', JStr ''1'')]"

definition example_cached :: json where
  "example_cached =
     JDict [(''id'', JStr ''d7''), (''account_id'', JStr ''1''), (''role_name'', JStr ''R''),
            (''service_name'', JStr ''n''), (''name'', JStr ''n'')]"

definition example_adapter :: "unit adapter" where
  "example_adapter =
     \<lparr>world = (), calls = [], logs = [], source = [], destination = [],
      cache = [(JStr ''1:R'', example_cached), (JStr ''n'', example_cached)]\<rparr>"






text \<open>
  Three webhooks known to the State Store: at the destination the first is gone (404),
  fetching the second fails (500) and the third is there.
\<close>

definition webhooks_example_client :: "unit client" where
  "webhooks_example_client rq w =
     (if rq = webhook_fetch ''gone'' then Inl (HTTPError 404)
      else if rq = webhook_fetch ''broken'' then Inl (HTTPError 500)
      else Inr (JDict [(''name'', JStr ''live''), (''url'', JStr ''https://example.org/hook'')]), w)"

definition webhooks_example_adapter :: "unit adapter" where
  "webhooks_example_adapter =
     \<lparr>world = (), calls = [], logs = [], source = [],
      destination =
        [(''gone'', JDict [(''name'', JStr ''gone'')]),
         (''broken'', JDict [(''name'', JStr ''broken'')]),
         (''live'', JDict [(''name'', JStr ''live'')])],
      cache = []\<rparr>"


text \<open>
  A destination with one Slack account, whose channel listing is an error object instead
  of a list.
\<close>

definition slack_accounts_client :: "unit client" where
  "slack_accounts_client rq w =
     (if rq = GET slack_base_path then Inr (JList [JDict [(''name'', JStr ''T1'')]])
      else Inr (JDict [(''errors'', JList [JStr ''not available''])]), w)"

text \<open>A heap of two channels, the second of which has no account name.\<close>

definition example_heap :: "(string \<times> json) list list" where
  "example_heap =
     [[(''name'', JStr ''#ops''), (''_account_name'', JStr ''T1''), (''display'', JDict [(''message'', JBool True)])],
      [(''name'', JStr ''#dev'')]]"


text \<open>
  A page of a listing with its count, a listing that answers every page with it, one
  whose pages have no count, and the items of a page read at \<^verbatim>\<open>data\<close>.
\<close>

definition sd_example_page :: "(string \<times> json) list" where
  "sd_example_page =
     [(''data'', JList [JStr ''svc'']),
      (''meta'', JDict [(''page'', JDict [(''total_count'', JInt 250)])])]"

definition sd_example_fetch :: "int \<Rightarrow> json" where
  "sd_example_fetch p = JDict sd_example_page"

definition sd_bare_fetch :: "int \<Rightarrow> json" where
  "sd_bare_fetch p = JDict [(''data'', JList [JStr ''svc''])]"

definition data_items :: "json \<Rightarrow> json list" where
  "data_items r =
     (case r of
        JDict kvs \<Rightarrow> (case map_of kvs ''data'' of Some (JList xs) \<Rightarrow> xs | _ \<Rightarrow> [])
      | _ \<Rightarrow> [])"


section \<open>Properties\<close>

subsection \<open>Pagination\<close>

lemma remaining_func_total_count:
  assumes "total_count_of resp = Inr (JInt t)"
  shows "remaining_func idx resp ps pn = Inr (max 0 (t - ps * (pn + 1)))"
  using assms
  by (auto simp add: remaining_func_def total_count_of_def ebind_def split: sum.splits)

lemma total_count_of_envelope:
  assumes "map_of resp ''meta'' = Some (JDict meta)"
    and "map_of meta ''page'' = Some (JDict page)"
    and "map_of page ''total_count'' = Some v"
  shows "total_count_of (JDict resp) = Inr v"
  using assms by (simp add: total_count_of_def ebind_def)

lemma total_count_of_no_meta:
  assumes "map_of resp ''meta'' = None"
  shows "total_count_of (JDict resp) = Inr (JInt 0)"
  using assms by (simp add: total_count_of_def ebind_def)

lemma total_count_of_no_page:
  assumes "map_of resp ''meta'' = Some (JDict meta)" and "map_of meta ''page'' = None"
  shows "total_count_of (JDict resp) = Inr (JInt 0)"
  using assms by (simp add: total_count_of_def ebind_def)

lemma total_count_of_no_total_count:
  assumes "map_of resp ''meta'' = Some (JDict meta)"
    and "map_of meta ''page'' = Some (JDict page)"
    and "map_of page ''total_count'' = None"
  shows "total_count_of (JDict resp) = Inr (JInt 0)"
  using assms by (simp add: total_count_of_def ebind_def)

lemma paginate_stops_first_page:
  assumes "remaining 0 (fetch 0) ps 0 = Inr 0"
  shows "paginate fetch items_of remaining ps 0 0 [] 0 = Some (Inr (items_of (fetch 0), 1))"
  using assms by (subst paginate.simps) (simp add: Let_def)

lemma paginate_three_pages:
  assumes "items_of (fetch 0) \<noteq> []" and "items_of (fetch 1) \<noteq> []"
    and "remaining 0 (fetch 0) ps 0 = Inr r0" and "r0 \<noteq> 0"
    and "remaining 1 (fetch 1) ps 1 = Inr r1" and "r1 \<noteq> 0"
    and "remaining 2 (fetch 2) ps 2 = Inr 0"
  shows "paginate fetch items_of remaining ps 0 0 [] 0
           = Some (Inr (items_of (fetch 0) @ items_of (fetch 1) @ items_of (fetch 2), 3))"
proof -
  have third: "paginate fetch items_of remaining ps 2 2 (items_of (fetch 0) @ items_of (fetch 1)) 2
                 = Some (Inr (items_of (fetch 0) @ items_of (fetch 1) @ items_of (fetch 2), 3))"
    using assms by (subst paginate.simps) (simp add: Let_def eval_nat_numeral)
  have second: "paginate fetch items_of remaining ps 1 1 (items_of (fetch 0)) 1
                 = Some (Inr (items_of (fetch 0) @ items_of (fetch 1) @ items_of (fetch 2), 3))"
    using assms third by (subst paginate.simps) (simp add: Let_def eval_nat_numeral)
  show ?thesis
    using assms second by (subst paginate.simps) (simp add: Let_def eval_nat_numeral)
qed

text \<open>
  C5. The remaining function of the service definitions is
  \<open>max 0 (total_count - page_size * (page_number + 1))\<close>, the total count read at
  \<^verbatim>\<open>resp["meta"]["page"]["total_count"]\<close>. With a total count of 250 and a page size of
  100 it is positive on pages 0 and 1 and 0 on page 2, so that the driver issues exactly
  three page requests. A response whose envelope has no count (no \<^verbatim>\<open>meta\<close>, no
  \<^verbatim>\<open>page\<close> or no \<^verbatim>\<open>total_count\<close>) gives 0 on the first page, for every page size that
  is not negative: the function returns a value, and the driver stops after one request.
\<close>

theorem remaining_func_pagination:
  "(total_count_of resp = Inr (JInt t) \<longrightarrow>
      remaining_func idx resp ps pn = Inr (max 0 (t - ps * (pn + 1))))
   \<and> (map_of env ''meta'' = Some (JDict meta) \<and> map_of meta ''page'' = Some (JDict page)
        \<and> map_of page ''total_count'' = Some v \<longrightarrow>
      total_count_of (JDict env) = Inr v)
   \<and> (total_count_of resp = Inr (JInt 250) \<longrightarrow>
        remaining_func 0 resp (page_size sd_pagination_config) 0 = Inr 150
      \<and> remaining_func 1 resp (page_size sd_pagination_config) 1 = Inr 50
      \<and> remaining_func 2 resp (page_size sd_pagination_config) 2 = Inr 0)
   \<and> ((\<forall>p \<in> {0, 1, 2}. total_count_of (fetch p) = Inr (JInt 250))
        \<and> items_of (fetch 0) \<noteq> [] \<and> items_of (fetch 1) \<noteq> [] \<longrightarrow>
      paginate fetch items_of remaining_func (page_size sd_pagination_config) 0 0 [] 0
        = Some (Inr (items_of (fetch 0) @ items_of (fetch 1) @ items_of (fetch 2), 3)))
   \<and> ((map_of env ''meta'' = None
         \<or> (map_of env ''meta'' = Some (JDict meta) \<and> map_of meta ''page'' = None)
         \<or> (map_of env ''meta'' = Some (JDict meta) \<and> map_of meta ''page'' = Some (JDict page)
              \<and> map_of page ''total_count'' = None))
        \<and> 0 \<le> ps \<longrightarrow>
        remaining_func 0 (JDict env) ps 0 = Inr 0
      \<and> (fetch 0 = JDict env \<longrightarrow>
           paginate fetch items_of remaining_func ps 0 0 [] 0
             = Some (Inr (items_of (JDict env), 1))))"
proof (intro conjI impI)
  assume "total_count_of resp = Inr (JInt t)"
  then show "remaining_func idx resp ps pn = Inr (max 0 (t - ps * (pn + 1)))"
    by (rule remaining_func_total_count)
next
  assume "map_of env ''meta'' = Some (JDict meta) \<and> map_of meta ''page'' = Some (JDict page)
    \<and> map_of page ''total_count'' = Some v"
  then show "total_count_of (JDict env) = Inr v"
    by (simp add: total_count_of_envelope)
next
  assume t: "total_count_of resp = Inr (JInt 250)"
  show "remaining_func 0 resp (page_size sd_pagination_config) 0 = Inr 150"
    by (simp add: remaining_func_total_count [OF t] sd_pagination_config_def)
  show "remaining_func 1 resp (page_size sd_pagination_config) 1 = Inr 50"
    by (simp add: remaining_func_total_count [OF t] sd_pagination_config_def)
  show "remaining_func 2 resp (page_size sd_pagination_config) 2 = Inr 0"
    by (simp add: remaining_func_total_count [OF t] sd_pagination_config_def)
next
  assume h: "(\<forall>p \<in> {0, 1, 2}. total_count_of (fetch p) = Inr (JInt 250))
    \<and> items_of (fetch 0) \<noteq> [] \<and> items_of (fetch 1) \<noteq> []"
  then have t: "total_count_of (fetch 0) = Inr (JInt 250)"
    "total_count_of (fetch 1) = Inr (JInt 250)" "total_count_of (fetch 2) = Inr (JInt 250)"
    by simp_all
  show "paginate fetch items_of remaining_func (page_size sd_pagination_config) 0 0 [] 0
          = Some (Inr (items_of (fetch 0) @ items_of (fetch 1) @ items_of (fetch 2), 3))"
  proof (rule paginate_three_pages)
    show "remaining_func 0 (fetch 0) (page_size sd_pagination_config) 0 = Inr 150"
      by (simp add: remaining_func_total_count [OF t(1)] sd_pagination_config_def)
    show "remaining_func 1 (fetch 1) (page_size sd_pagination_config) 1 = Inr 50"
      by (simp add: remaining_func_total_count [OF t(2)] sd_pagination_config_def)
    show "remaining_func 2 (fetch 2) (page_size sd_pagination_config) 2 = Inr 0"
      by (simp add: remaining_func_total_count [OF t(3)] sd_pagination_config_def)
  qed (use h in simp_all)
next
  assume h: "(map_of env ''meta'' = None
         \<or> (map_of env ''meta'' = Some (JDict meta) \<and> map_of meta ''page'' = None)
         \<or> (map_of env ''meta'' = Some (JDict meta) \<and> map_of meta ''page'' = Some (JDict page)
              \<and> map_of page ''total_count'' = None))
        \<and> 0 \<le> ps"
  then have "total_count_of (JDict env) = Inr (JInt 0)"
    using total_count_of_no_meta total_count_of_no_page total_count_of_no_total_count by blast
  then have "remaining_func 0 (JDict env) ps 0 = Inr (max 0 (0 - ps * (0 + 1)))"
    by (rule remaining_func_total_count)
  then show r: "remaining_func 0 (JDict env) ps 0 = Inr 0"
    using h by simp
  assume "fetch 0 = JDict env"
  then show "paginate fetch items_of remaining_func ps 0 0 [] 0
      = Some (Inr (items_of (JDict env), 1))"
    using paginate_stops_first_page [of remaining_func fetch ps items_of] r by simp
qed

theorem remaining_func_pagination_witness:
  "total_count_of (JDict sd_example_page) = Inr (JInt 250)
   \<and> remaining_func 0 (JDict sd_example_page) 100 0 = Inr 150
   \<and> remaining_func 1 (JDict sd_example_page) 100 1 = Inr 50
   \<and> remaining_func 2 (JDict sd_example_page) 100 2 = Inr 0
   \<and> paginate sd_example_fetch data_items remaining_func 100 0 0 [] 0
       = Some (Inr ([JStr ''svc'', JStr ''svc'', JStr ''svc''], 3))
   \<and> remaining_func 0 (JDict [(''data'', JList [JStr ''svc''])]) 100 0 = Inr 0
   \<and> paginate sd_bare_fetch data_items remaining_func 100 0 0 [] 0
       = Some (Inr ([JStr ''svc''], 1))"
proof -
  have shape: "map_of sd_example_page ''meta'' = Some (JDict [(''page'', JDict [(''total_count'', JInt 250)])])
      \<and> map_of [(''page'', JDict [(''total_count'', JInt 250)])] ''page''
            = Some (JDict [(''total_count'', JInt 250)])
      \<and> map_of [(''total_count'', JInt 250)] ''total_count'' = Some (JInt 250)"
    by (simp add: sd_example_page_def)
  note t = remaining_func_pagination
      [where resp = "JDict sd_example_page" and t = 250 and env = sd_example_page
         and meta = "[(''page'', JDict [(''total_count'', JInt 250)])]"
         and page = "[(''total_count'', JInt 250)]" and v = "JInt 250"
         and fetch = sd_example_fetch and items_of = data_items and ps = 100 and pn = 0 and idx = 0]
  from t shape have tc: "total_count_of (JDict sd_example_page) = Inr (JInt 250)"
    by blast
  from t tc have r: "remaining_func 0 (JDict sd_example_page) (page_size sd_pagination_config) 0 = Inr 150
      \<and> remaining_func 1 (JDict sd_example_page) (page_size sd_pagination_config) 1 = Inr 50
      \<and> remaining_func 2 (JDict sd_example_page) (page_size sd_pagination_config) 2 = Inr 0"
    by blast
  have pages: "(\<forall>p \<in> {0, 1, 2}. total_count_of (sd_example_fetch p) = Inr (JInt 250))
      \<and> data_items (sd_example_fetch 0) \<noteq> [] \<and> data_items (sd_example_fetch 1) \<noteq> []"
    using tc by (simp add: sd_example_fetch_def data_items_def sd_example_page_def)
  from t pages
  have "paginate sd_example_fetch data_items remaining_func (page_size sd_pagination_config) 0 0 [] 0
      = Some (Inr (data_items (sd_example_fetch 0) @ data_items (sd_example_fetch 1)
                     @ data_items (sd_example_fetch 2), 3))"
    by blast
  then have three: "paginate sd_example_fetch data_items remaining_func 100 0 0 [] 0
       = Some (Inr ([JStr ''svc'', JStr ''svc'', JStr ''svc''], 3))"
    by (simp add: sd_pagination_config_def sd_example_fetch_def data_items_def sd_example_page_def)
  note u = remaining_func_pagination
      [where env = "[(''data'', JList [JStr ''svc''])]" and ps = 100 and fetch = sd_bare_fetch
         and items_of = data_items]
  have bare: "(map_of [(''data'', JList [JStr ''svc''])] ''meta'' = None
         \<or> (map_of [(''data'', JList [JStr ''svc''])] ''meta'' = Some (JDict meta) \<and> map_of meta ''page'' = None)
         \<or> (map_of [(''data'', JList [JStr ''svc''])] ''meta'' = Some (JDict meta)
              \<and> map_of meta ''page'' = Some (JDict page)
              \<and> map_of page ''total_count'' = None))
        \<and> (0::int) \<le> 100" for meta page
    by simp
  have first: "sd_bare_fetch 0 = JDict [(''data'', JList [JStr ''svc''])]"
    by (simp add: sd_bare_fetch_def)
  from u bare first
  have "remaining_func 0 (JDict [(''data'', JList [JStr ''svc''])]) 100 0 = Inr 0
      \<and> paginate sd_bare_fetch data_items remaining_func 100 0 0 [] 0
           = Some (Inr (data_items (JDict [(''data'', JList [JStr ''svc''])]), 1))"
    by blast
  then have one: "remaining_func 0 (JDict [(''data'', JList [JStr ''svc''])]) 100 0 = Inr 0
      \<and> paginate sd_bare_fetch data_items remaining_func 100 0 0 [] 0 = Some (Inr ([JStr ''svc''], 1))"
    by (simp add: data_items_def)
  from tc r three one show ?thesis
    by (simp add: sd_pagination_config_def)
qed

subsection \<open>Slack composite identities\<close>

lemma split1_first:
  assumes "c \<notin> set a"
  shows "split1 c (a @ c # b) = [a, b]"
proof -
  have "takeWhile (\<lambda>x. x \<noteq> c) (a @ c # b) = a \<and> dropWhile (\<lambda>x. x \<noteq> c) (a @ c # b) = c # b"
    using assms by (induction a) auto
  then show ?thesis by (simp add: split1_def)
qed

lemma slack_parse_compose:
  assumes "CHR '':'' \<notin> set account"
  shows "slack_parse_composite_id (account @ '':'' @ channel) = (account, channel)"
  using split1_first [OF assms, of channel] by (simp add: slack_parse_composite_id_def)

text \<open>
  C6. Parsing a Slack composite id splits at the first colon only:
  \<^verbatim>\<open>"workspace:#channel:with:colons"\<close> parses to \<^verbatim>\<open>("workspace", "#channel:with:colons")\<close>.
  For every account name without a colon and every channel name, parsing
  \<^verbatim>\<open>account:channel\<close> gives back the pair, and so does parsing the id that
  \<^verbatim>\<open>_get_composite_id\<close> composes for a channel with these two names.
\<close>

theorem slack_parse_composite_id_first_colon:
  "slack_parse_composite_id ''workspace:#channel:with:colons'' = (''workspace'', ''#channel:with:colons'')
   \<and> (CHR '':'' \<notin> set account \<longrightarrow>
        slack_parse_composite_id (account @ '':'' @ channel) = (account, channel))
   \<and> (CHR '':'' \<notin> set account \<and> map_of resource ''_account_name'' = Some (JStr account)
        \<and> map_of resource ''channel_name'' = Some (JStr channel) \<longrightarrow>
        (\<exists>cid. slack_get_composite_id (JDict resource) = Inr cid
           \<and> cid = account @ '':'' @ channel
           \<and> slack_parse_composite_id cid = (account, channel)))"
proof (intro conjI impI)
  have "CHR '':'' \<notin> set ''workspace''" by simp
  from slack_parse_compose [OF this, of "''#channel:with:colons''"]
  show "slack_parse_composite_id ''workspace:#channel:with:colons''
          = (''workspace'', ''#channel:with:colons'')"
    by simp
next
  assume "CHR '':'' \<notin> set account"
  then show "slack_parse_composite_id (account @ '':'' @ channel) = (account, channel)"
    by (rule slack_parse_compose)
next
  assume h: "CHR '':'' \<notin> set account \<and> map_of resource ''_account_name'' = Some (JStr account)
        \<and> map_of resource ''channel_name'' = Some (JStr channel)"
  then have "slack_get_composite_id (JDict resource) = Inr (account @ '':'' @ channel)"
    by (simp add: slack_get_composite_id_def ebind_def py_str_def)
  then show "\<exists>cid. slack_get_composite_id (JDict resource) = Inr cid
           \<and> cid = account @ '':'' @ channel
           \<and> slack_parse_composite_id cid = (account, channel)"
    using h slack_parse_compose by simp
qed

theorem slack_parse_composite_id_first_colon_witness:
  "slack_parse_composite_id ''T01:#ops:eu'' = (''T01'', ''#ops:eu'')
   \<and> slack_get_composite_id (JDict [(''channel_name'', JStr ''#ops:eu''), (''_account_name'', JStr ''T01'')])
       = Inr ''T01:#ops:eu''"
  using slack_parse_composite_id_first_colon
    [of "''T01''" "''#ops:eu''" "[(''channel_name'', JStr ''#ops:eu''), (''_account_name'', JStr ''T01'')]"]
  by simp

subsection \<open>The operations step by step\<close>

lemma seq_ret: "seq (ret x) f = f x"
  by (simp add: seq_def ret_def)

lemma seq_lift_Inr: "seq (lift (Inr x)) f = f x"
  by (simp add: seq_def lift_def)

lemma seq_lift_Inl: "seq (lift (Inl e)) f = lift (Inl e)"
  by (simp add: seq_def lift_def)

lemma seq_read: "seq (read g) f s = f (g s) s"
  by (simp add: seq_def read_def)

lemma seq_modify: "seq (modify g) f s = f () (g s)"
  by (simp add: seq_def modify_def)

lemma seq_store_destination:
  "seq (store_destination ident v) f s
     = f () (s\<lparr>destination := AList.update ident v (destination s)\<rparr>)"
  by (simp add: store_destination_def seq_modify)

lemmas monad_simps =
  seq_ret seq_lift_Inr seq_lift_Inl seq_read seq_modify seq_store_destination

lemmas action_defs =
  seq_def ret_def lift_def read_def modify_def send_def attempt_def log_line_def
  store_destination_def destination_item_def destination_get_def cache_store_def

lemma cache_found:
  assumes "py_key k = Inr k'" and "map_of c k' = Some v"
  shows "cache_in k c = Inr True" and "cache_item c k = Inr v"
  using assms
  by (auto simp add: cache_in_def cache_item_def ebind_def dest: map_of_SomeD intro: rev_image_eqI)

subsection \<open>Upsert: the create operation hands over to the update operation\<close>

lemma aws_create_delegates:
  assumes "aws_get_resource_id (JDict resource) = Inr rid"
    and "map_of (cache s) (JStr rid) = Some cached"
  shows "aws_create_resource client ident resource s
           = aws_update_resource client ident resource (stored ident cached s)"
  using assms cache_found [of "JStr rid" "JStr rid" "cache s" cached]
  by (simp add: aws_create_resource_def monad_simps)

lemma azure_create_delegates:
  assumes "azure_get_resource_id (JDict resource) = Inr rid"
    and "map_of (cache s) (JStr rid) = Some cached"
  shows "azure_create_resource client ident resource s
           = azure_update_resource client ident resource (stored ident cached s)"
  using assms cache_found [of "JStr rid" "JStr rid" "cache s" cached]
  by (simp add: azure_create_resource_def monad_simps)

lemma fastly_create_delegates:
  assumes "ebind (py_item (JDict resource) ''attributes'') (\<lambda>a. py_item a ''name'') = Inr name"
    and "py_key name = Inr k"
    and "map_of (cache s) k = Some cached"
  shows "fastly_create_resource client ident resource s
           = fastly_update_resource client ident resource (stored ident cached s)"
  using assms cache_found [of name k "cache s" cached]
  by (simp add: fastly_create_resource_def monad_simps)

lemma gcp_create_delegates:
  assumes "gcp_client_email (JDict resource) = Inr client_email"
    and "truthy client_email"
    and "py_key client_email = Inr k"
    and "map_of (cache s) k = Some cached"
  shows "gcp_create_resource client ident resource s
           = gcp_update_resource client ident resource (stored ident cached s)"
  using assms cache_found [of client_email k "cache s" cached]
  by (simp add: gcp_create_resource_def monad_simps)

lemma pagerduty_create_delegates:
  assumes "map_of resource ''service_name'' = Some service_name"
    and "py_key service_name = Inr k"
    and "map_of (cache s) k = Some cached"
  shows "pagerduty_create_resource client ident resource s
           = pagerduty_update_resource client ident resource (stored ident cached s)"
  using assms cache_found [of service_name k "cache s" cached]
  by (simp add: pagerduty_create_resource_def monad_simps)

lemma webhooks_create_delegates:
  assumes "map_of resource ''name'' = Some name"
    and "py_key name = Inr k"
    and "map_of (cache s) k = Some cached"
  shows "webhooks_create_resource client ident resource s
           = webhooks_update_resource client ident resource (stored ident cached s)"
  using assms cache_found [of name k "cache s" cached]
  by (simp add: webhooks_create_resource_def monad_simps)

lemma slack_create_delegates:
  assumes "map_of (cache s) (JStr ident) = Some cached"
  shows "slack_create_resource client ident resource s
           = slack_update_resource client ident resource (stored ident cached s)"
  using assms cache_found [of "JStr ident" "JStr ident" "cache s" cached]
  by (simp add: slack_create_resource_def monad_simps)

lemma sd_create_delegates:
  assumes "map_of (cache s) (JStr ident) = Some cached"
  shows "sd_create_resource client ident resource s
           = sd_update_resource client ident resource (stored ident cached s)"
  using assms cache_found [of "JStr ident" "JStr ident" "cache s" cached]
  by (simp add: sd_create_resource_def monad_simps)

text \<open>No update operation writes to the State Store.\<close>

lemma aws_update_destination:
  "destination (snd (aws_update_resource client ident resource s)) = destination s"
  by (auto simp add: aws_update_resource_def action_defs split: sum.splits prod.splits)

lemma azure_update_destination:
  "destination (snd (azure_update_resource client ident resource s)) = destination s"
  by (auto simp add: azure_update_resource_def action_defs split: sum.splits prod.splits)

lemma fastly_update_destination:
  "destination (snd (fastly_update_resource client ident resource s)) = destination s"
  by (auto simp add: fastly_update_resource_def action_defs Let_def
      split: sum.splits prod.splits option.splits)

lemma gcp_update_destination:
  "destination (snd (gcp_update_resource client ident resource s)) = destination s"
  by (auto simp add: gcp_update_resource_def action_defs Let_def
      split: sum.splits prod.splits option.splits)

lemma pagerduty_update_destination:
  "destination (snd (pagerduty_update_resource client ident resource s)) = destination s"
  by (auto simp add: pagerduty_update_resource_def action_defs
      split: sum.splits prod.splits option.splits)

lemma webhooks_update_destination:
  "destination (snd (webhooks_update_resource client ident resource s)) = destination s"
  by (auto simp add: webhooks_update_resource_def action_defs
      split: sum.splits prod.splits option.splits)

lemma slack_update_destination:
  "destination (snd (slack_update_resource client ident resource s)) = destination s"
  by (auto simp add: slack_update_resource_def action_defs Let_def
      split: sum.splits prod.splits)

lemma sd_update_destination:
  "destination (snd (sd_update_resource client ident resource s)) = destination s"
  by (auto simp add: sd_update_resource_def action_defs split: sum.splits prod.splits)

lemma stored_entry: "map_of (destination (stored ident cached s)) ident = Some cached"
  by (simp add: update_conv')

text \<open>
  C9. In every adapter, when \<^verbatim>\<open>create_resource\<close> finds the key it looks up in the
  Destination Cache, it stores the cached instance at
  \<^verbatim>\<open>state.destination[resource_type][_id]\<close> and then runs \<^verbatim>\<open>update_resource\<close>: the
  call is the update on the adapter with that entry stored, the entry is there and is the
  cached instance when the update starts, and it still is when the call has returned or
  raised, for a later \<^verbatim>\<open>delete_resource\<close> to read. The key looked up is the composite
  identity of the resource (AWS, Azure), the name in its attributes (Fastly), its client
  email (GCP), its service name (PagerDuty), its name (webhooks) or \<^verbatim>\<open>_id\<close> (Slack,
  service definitions).
\<close>

theorem create_stores_cached_then_updates:
  "(aws_get_resource_id (JDict resource) = Inr rid \<and> map_of (cache s) (JStr rid) = Some cached \<longrightarrow>
      aws_create_resource client ident resource s
        = aws_update_resource client ident resource (stored ident cached s)
      \<and> map_of (destination (snd (aws_create_resource client ident resource s))) ident = Some cached)
   \<and> (azure_get_resource_id (JDict resource) = Inr rid \<and> map_of (cache s) (JStr rid) = Some cached \<longrightarrow>
      azure_create_resource client ident resource s
        = azure_update_resource client ident resource (stored ident cached s)
      \<and> map_of (destination (snd (azure_create_resource client ident resource s))) ident = Some cached)
   \<and> (ebind (py_item (JDict resource) ''attributes'') (\<lambda>a. py_item a ''name'') = Inr name
        \<and> py_key name = Inr k \<and> map_of (cache s) k = Some cached \<longrightarrow>
      fastly_create_resource client ident resource s
        = fastly_update_resource client ident resource (stored ident cached s)
      \<and> map_of (destination (snd (fastly_create_resource client ident resource s))) ident = Some cached)
   \<and> (gcp_client_email (JDict resource) = Inr name \<and> truthy name
        \<and> py_key name = Inr k \<and> map_of (cache s) k = Some cached \<longrightarrow>
      gcp_create_resource client ident resource s
        = gcp_update_resource client ident resource (stored ident cached s)
      \<and> map_of (destination (snd (gcp_create_resource client ident resource s))) ident = Some cached)
   \<and> (map_of resource ''service_name'' = Some name
        \<and> py_key name = Inr k \<and> map_of (cache s) k = Some cached \<longrightarrow>
      pagerduty_create_resource client ident resource s
        = pagerduty_update_resource client ident resource (stored ident cached s)
      \<and> map_of (destination (snd (pagerduty_create_resource client ident resource s))) ident = Some cached)
   \<and> (map_of resource ''name'' = Some name
        \<and> py_key name = Inr k \<and> map_of (cache s) k = Some cached \<longrightarrow>
      webhooks_create_resource client ident resource s
        = webhooks_update_resource client ident resource (stored ident cached s)
      \<and> map_of (destination (snd (webhooks_create_resource client ident resource s))) ident = Some cached)
   \<and> (map_of (cache s) (JStr ident) = Some cached \<longrightarrow>
      slack_create_resource client ident resource s
        = slack_update_resource client ident resource (stored ident cached s)
      \<and> map_of (destination (snd (slack_create_resource client ident resource s))) ident = Some cached
      \<and> sd_create_resource client ident resource s
        = sd_update_resource client ident resource (stored ident cached s)
      \<and> map_of (destination (snd (sd_create_resource client ident resource s))) ident = Some cached)
   \<and> map_of (destination (stored ident cached s)) ident = Some cached"
proof (intro conjI impI)
  assume "aws_get_resource_id (JDict resource) = Inr rid \<and> map_of (cache s) (JStr rid) = Some cached"
  then show a: "aws_create_resource client ident resource s
       = aws_update_resource client ident resource (stored ident cached s)"
    by (simp add: aws_create_delegates)
  show "map_of (destination (snd (aws_create_resource client ident resource s))) ident = Some cached"
    by (simp only: a aws_update_destination stored_entry)
next
  assume "azure_get_resource_id (JDict resource) = Inr rid \<and> map_of (cache s) (JStr rid) = Some cached"
  then show a: "azure_create_resource client ident resource s
       = azure_update_resource client ident resource (stored ident cached s)"
    by (simp add: azure_create_delegates)
  show "map_of (destination (snd (azure_create_resource client ident resource s))) ident = Some cached"
    by (simp only: a azure_update_destination stored_entry)
next
  assume "ebind (py_item (JDict resource) ''attributes'') (\<lambda>a. py_item a ''name'') = Inr name
        \<and> py_key name = Inr k \<and> map_of (cache s) k = Some cached"
  then show a: "fastly_create_resource client ident resource s
       = fastly_update_resource client ident resource (stored ident cached s)"
    by (simp add: fastly_create_delegates)
  show "map_of (destination (snd (fastly_create_resource client ident resource s))) ident = Some cached"
    by (simp only: a fastly_update_destination stored_entry)
next
  assume "gcp_client_email (JDict resource) = Inr name \<and> truthy name
        \<and> py_key name = Inr k \<and> map_of (cache s) k = Some cached"
  then show a: "gcp_create_resource client ident resource s
       = gcp_update_resource client ident resource (stored ident cached s)"
    by (simp add: gcp_create_delegates)
  show "map_of (destination (snd (gcp_create_resource client ident resource s))) ident = Some cached"
    by (simp only: a gcp_update_destination stored_entry)
next
  assume "map_of resource ''service_name'' = Some name
        \<and> py_key name = Inr k \<and> map_of (cache s) k = Some cached"
  then show a: "pagerduty_create_resource client ident resource s
       = pagerduty_update_resource client ident resource (stored ident cached s)"
    by (simp add: pagerduty_create_delegates)
  show "map_of (destination (snd (pagerduty_create_resource client ident resource s))) ident = Some cached"
    by (simp only: a pagerduty_update_destination stored_entry)
next
  assume "map_of resource ''name'' = Some name
        \<and> py_key name = Inr k \<and> map_of (cache s) k = Some cached"
  then show a: "webhooks_create_resource client ident resource s
       = webhooks_update_resource client ident resource (stored ident cached s)"
    by (simp add: webhooks_create_delegates)
  show "map_of (destination (snd (webhooks_create_resource client ident resource s))) ident = Some cached"
    by (simp only: a webhooks_update_destination stored_entry)
next
  assume h: "map_of (cache s) (JStr ident) = Some cached"
  then show a: "slack_create_resource client ident resource s
       = slack_update_resource client ident resource (stored ident cached s)"
    by (rule slack_create_delegates)
  show "map_of (destination (snd (slack_create_resource client ident resource s))) ident = Some cached"
    by (simp only: a slack_update_destination stored_entry)
  from h show b: "sd_create_resource client ident resource s
       = sd_update_resource client ident resource (stored ident cached s)"
    by (rule sd_create_delegates)
  show "map_of (destination (snd (sd_create_resource client ident resource s))) ident = Some cached"
    by (simp only: b sd_update_destination stored_entry)
next
  show "map_of (destination (stored ident cached s)) ident = Some cached"
    by (rule stored_entry)
qed

theorem create_stores_cached_then_updates_witness:
  "map_of (destination (snd (aws_create_resource example_client ''1:R'' example_resource example_adapter)))
     ''1:R'' = Some example_cached
   \<and> map_of (destination (snd (azure_create_resource example_client ''1:R'' example_resource example_adapter)))
     ''1:R'' = Some example_cached
   \<and> map_of (destination (snd (fastly_create_resource example_client ''1:R'' example_resource example_adapter)))
     ''1:R'' = Some example_cached
   \<and> map_of (destination (snd (gcp_create_resource example_client ''1:R'' example_resource example_adapter)))
     ''1:R'' = Some example_cached
   \<and> map_of (destination (snd (pagerduty_create_resource example_client ''1:R'' example_resource example_adapter)))
     ''1:R'' = Some example_cached
   \<and> map_of (destination (snd (webhooks_create_resource example_client ''1:R'' example_resource example_adapter)))
     ''1:R'' = Some example_cached
   \<and> map_of (destination (snd (slack_create_resource example_client ''1:R'' example_resource example_adapter)))
     ''1:R'' = Some example_cached
   \<and> map_of (destination (snd (sd_create_resource example_client ''1:R'' example_resource example_adapter)))
     ''1:R'' = Some example_cached"
proof -
  have aws: "aws_get_resource_id (JDict example_resource) = Inr ''1:R''"
    by (simp add: aws_get_resource_id_def example_resource_def ebind_def py_str_def)
  have azure: "azure_get_resource_id (JDict example_resource) = Inr ''1:R''"
    by (simp add: azure_get_resource_id_def example_resource_def ebind_def py_str_def)
  have fastly: "ebind (py_item (JDict example_resource) ''attributes'') (\<lambda>a. py_item a ''name'')
                  = Inr (JStr ''n'')"
    by (simp add: example_resource_def ebind_def)
  have gcp: "gcp_client_email (JDict example_resource) = Inr (JStr ''n'')"
    by (simp add: gcp_client_email_def example_resource_def ebind_def)
  have fields: "map_of example_resource ''service_name'' = Some (JStr ''n'')"
    "map_of example_resource ''name'' = Some (JStr ''n'')"
    by (simp_all add: example_resource_def)
  have cached: "map_of (cache example_adapter) (JStr ''1:R'') = Some example_cached"
    "map_of (cache example_adapter) (JStr ''n'') = Some example_cached"
    by (simp_all add: example_adapter_def)
  have key: "py_key (JStr ''n'') = Inr (JStr ''n'')" "truthy (JStr ''n'')"
    by simp_all
  show ?thesis
    using create_stores_cached_then_updates
      [where resource = example_resource and rid = "''1:R''" and ident = "''1:R''"
         and s = example_adapter and cached = example_cached and name = "JStr ''n''"
         and k = "JStr ''n''" and client = example_client]
      aws azure fastly gcp fields cached key
    by blast
qed

subsection \<open>Upsert: the requests of a create that finds its key in the cache\<close>








text \<open>The update of a service definition is a POST of the schema to the base path.\<close>

lemma sd_update_calls:
  assumes "sd_extract_schema_data (JDict resource) = Inr schema_data"
  shows "calls (snd (sd_update_resource client ident resource s))
           = calls s @ [POST sd_base_path schema_data]"
  using assms
  by (auto simp add: sd_update_resource_def action_defs split: sum.splits prod.splits)

text \<open>The update of an AWS integration whose State Store entry is a mapping is one PUT.\<close>

lemma aws_update_params_total:
  "\<exists>params. aws_update_params (JDict d) resource = Inr params"
  by (simp add: aws_update_params_def ebind_def py_or_def Let_def)










subsection \<open>Webhooks: building the cache without a list endpoint\<close>

lemma webhook_entry_cases:
  assumes "webhook_entry v"
  obtains d where "v = JDict d" and "map_of d ''name'' = None"
  | d nm where "v = JDict d" and "map_of d ''name'' = Some (JStr nm)"
  using assms by (cases v) (auto split: option.splits json.splits)

lemma http_onlyD:
  assumes "http_only client" and "client rq w = (Inl e, w')"
  obtains c where "e = HTTPError c"
  using assms unfolding http_only_def by (metis fst_conv)

text \<open>One round of the first loop, by the outcome of the fetch.\<close>

lemma check_destination_skip:
  assumes "map_of d ''name'' = None \<or> map_of d ''name'' = Some (JStr [])"
  shows "webhooks_check_destination client ((i, JDict d) # items) dw s
           = webhooks_check_destination client items dw s"
  using assms by (auto simp add: monad_simps)

lemma check_destination_ok:
  assumes "map_of d ''name'' = Some (JStr nm)" and "nm \<noteq> []"
    and "client (webhook_fetch nm) (world s) = (Inr resp, w)"
  shows "webhooks_check_destination client ((i, JDict d) # items) dw s
           = webhooks_check_destination client items (AList.update (JStr nm) resp dw)
               (s\<lparr>world := w, calls := calls s @ [webhook_fetch nm]\<rparr>)"
  using assms
  by (simp add: monad_simps py_str_def webhook_fetch_def cache_set_def ebind_def)
     (simp add: seq_def attempt_def send_def lift_def)

lemma check_destination_http_error:
  assumes "map_of d ''name'' = Some (JStr nm)" and "nm \<noteq> []"
    and "client (webhook_fetch nm) (world s) = (Inl (HTTPError c), w)"
  shows "webhooks_check_destination client ((i, JDict d) # items) dw s
           = webhooks_check_destination client items dw
               (s\<lparr>world := w, calls := calls s @ [webhook_fetch nm],
                  logs := logs s @ [if c = 404 then webhook_not_found (JStr nm)
                                    else webhook_fetch_error (JStr nm) (HTTPError c)]\<rparr>)"
  using assms
  by (simp add: monad_simps py_str_def webhook_fetch_def)
     (simp add: seq_def attempt_def send_def lift_def log_line_def modify_def)

text \<open>
  The first loop never raises for such entries and such a client. Whatever holds of the
  names fetched so far, the cache under construction and the adapter, and is kept by a
  fetch that succeeds and by a fetch that fails with an HTTP error, holds of the names of
  all the entries when the loop is over.
\<close>

lemma webhooks_check_destination_rule:
  assumes entries: "\<forall>item \<in> set items. webhook_entry (snd item)"
    and http: "http_only client"
    and init: "P ns dw s"
    and ok: "\<And>nm resp w ns dw s. nm \<noteq> [] \<Longrightarrow> client (webhook_fetch nm) (world s) = (Inr resp, w)
               \<Longrightarrow> P ns dw s
               \<Longrightarrow> P (ns @ [nm]) (AList.update (JStr nm) resp dw)
                     (s\<lparr>world := w, calls := calls s @ [webhook_fetch nm]\<rparr>)"
    and err: "\<And>nm c w ns dw s. nm \<noteq> [] \<Longrightarrow> client (webhook_fetch nm) (world s) = (Inl (HTTPError c), w)
               \<Longrightarrow> P ns dw s
               \<Longrightarrow> P (ns @ [nm]) dw (s\<lparr>world := w, calls := calls s @ [webhook_fetch nm],
                          logs := logs s @ [if c = 404 then webhook_not_found (JStr nm)
                                            else webhook_fetch_error (JStr nm) (HTTPError c)]\<rparr>)"
  shows "\<exists>dw' s'. webhooks_check_destination client items dw s = (Inr dw', s')
           \<and> P (ns @ webhook_names items) dw' s'"
  using entries init
proof (induction items arbitrary: ns dw s)
  case Nil
  then show ?case by (simp add: ret_def)
next
  case (Cons item items)
  obtain i v where item: "item = (i, v)" by (cases item)
  from Cons.prems item have v: "webhook_entry v" and rest: "\<forall>item \<in> set items. webhook_entry (snd item)"
    by simp_all
  note IH = Cons.IH [OF rest]
  from v show ?case
  proof (cases rule: webhook_entry_cases)
    case (1 d)
    then show ?thesis
      using IH [OF Cons.prems(2)] item
      by (simp del: webhooks_check_destination.simps add: check_destination_skip)
  next
    case (2 d nm)
    show ?thesis
    proof (cases "nm = []")
      case True
      then show ?thesis
        using 2 IH [OF Cons.prems(2)] item
        by (simp del: webhooks_check_destination.simps add: check_destination_skip)
    next
      case False
      obtain r w where r: "client (webhook_fetch nm) (world s) = (r, w)"
        by (cases "client (webhook_fetch nm) (world s)")
      show ?thesis
      proof (cases r)
        case (Inl e)
        with r http obtain c where c: "e = HTTPError c"
          by (auto elim: http_onlyD)
        from err [OF False _ Cons.prems(2)] r Inl c
        have "P (ns @ [nm]) dw (s\<lparr>world := w, calls := calls s @ [webhook_fetch nm],
                          logs := logs s @ [if c = 404 then webhook_not_found (JStr nm)
                                            else webhook_fetch_error (JStr nm) (HTTPError c)]\<rparr>)"
          by simp
        from IH [OF this] Inl r 2 False item c show ?thesis
          by (simp del: webhooks_check_destination.simps add: check_destination_http_error)
      next
        case (Inr resp)
        from ok [OF False _ Cons.prems(2)] r Inr
        have "P (ns @ [nm]) (AList.update (JStr nm) resp dw)
                (s\<lparr>world := w, calls := calls s @ [webhook_fetch nm]\<rparr>)"
          by simp
        from IH [OF this] Inr r 2 False item show ?thesis
          by (simp del: webhooks_check_destination.simps add: check_destination_ok)
      qed
    qed
  qed
qed

text \<open>One round of the second loop.\<close>

lemma check_source_skip:
  assumes "map_of d ''name'' = None \<or> map_of d ''name'' = Some (JStr [])
           \<or> (\<exists>nm. map_of d ''name'' = Some (JStr nm) \<and> JStr nm \<in> fst ` set dw)"
  shows "webhooks_check_source client ((i, JDict d) # items) dw s
           = webhooks_check_source client items dw s"
  using assms by (elim disjE exE conjE) (simp_all add: monad_simps cache_in_def ebind_def)

lemma check_source_ok:
  assumes "map_of d ''name'' = Some (JStr nm)" and "nm \<noteq> []" and "JStr nm \<notin> fst ` set dw"
    and "client (webhook_fetch nm) (world s) = (Inr resp, w)"
  shows "webhooks_check_source client ((i, JDict d) # items) dw s
           = webhooks_check_source client items (AList.update (JStr nm) resp dw)
               (s\<lparr>world := w, calls := calls s @ [webhook_fetch nm]\<rparr>)"
  using assms
  by (simp add: monad_simps py_str_def webhook_fetch_def cache_set_def cache_in_def ebind_def)
     (simp add: seq_def attempt_def send_def lift_def)

lemma check_source_http_error:
  assumes "map_of d ''name'' = Some (JStr nm)" and "nm \<noteq> []" and "JStr nm \<notin> fst ` set dw"
    and "client (webhook_fetch nm) (world s) = (Inl (HTTPError c), w)"
  shows "webhooks_check_source client ((i, JDict d) # items) dw s
           = webhooks_check_source client items dw
               (s\<lparr>world := w, calls := calls s @ [webhook_fetch nm],
                  logs := logs s @ (if c = 404 then []
                                    else [webhook_fetch_error (JStr nm) (HTTPError c)])\<rparr>)"
  using assms
  by (simp add: monad_simps py_str_def webhook_fetch_def cache_in_def ebind_def)
     (simp add: seq_def attempt_def send_def lift_def log_line_def modify_def ret_def)

lemma webhooks_check_source_rule:
  assumes entries: "\<forall>item \<in> set items. webhook_entry (snd item)"
    and http: "http_only client"
    and init: "P dw s"
    and ok: "\<And>nm resp w dw s. nm \<noteq> [] \<Longrightarrow> client (webhook_fetch nm) (world s) = (Inr resp, w)
               \<Longrightarrow> P dw s
               \<Longrightarrow> P (AList.update (JStr nm) resp dw)
                     (s\<lparr>world := w, calls := calls s @ [webhook_fetch nm]\<rparr>)"
    and err: "\<And>nm c w dw s. nm \<noteq> [] \<Longrightarrow> client (webhook_fetch nm) (world s) = (Inl (HTTPError c), w)
               \<Longrightarrow> P dw s
               \<Longrightarrow> P dw (s\<lparr>world := w, calls := calls s @ [webhook_fetch nm],
                          logs := logs s @ (if c = 404 then []
                                            else [webhook_fetch_error (JStr nm) (HTTPError c)])\<rparr>)"
  shows "\<exists>dw' s'. webhooks_check_source client items dw s = (Inr dw', s') \<and> P dw' s'"
  using entries init
proof (induction items arbitrary: dw s)
  case Nil
  then show ?case by (simp add: ret_def)
next
  case (Cons item items)
  obtain i v where item: "item = (i, v)" by (cases item)
  from Cons.prems item have v: "webhook_entry v" and rest: "\<forall>item \<in> set items. webhook_entry (snd item)"
    by simp_all
  note IH = Cons.IH [OF rest]
  from v show ?case
  proof (cases rule: webhook_entry_cases)
    case (1 d)
    then show ?thesis
      using IH [OF Cons.prems(2)] item
      by (simp del: webhooks_check_source.simps add: check_source_skip)
  next
    case (2 d nm)
    show ?thesis
    proof (cases "nm = [] \<or> JStr nm \<in> fst ` set dw")
      case True
      then show ?thesis
        using 2 IH [OF Cons.prems(2)] item
        by (auto simp del: webhooks_check_source.simps simp add: check_source_skip)
    next
      case False
      then have nm: "nm \<noteq> []" and new: "JStr nm \<notin> fst ` set dw" by simp_all
      obtain r w where r: "client (webhook_fetch nm) (world s) = (r, w)"
        by (cases "client (webhook_fetch nm) (world s)")
      show ?thesis
      proof (cases r)
        case (Inl e)
        with r http obtain c where c: "e = HTTPError c"
          by (auto elim: http_onlyD)
        from err [OF nm _ Cons.prems(2)] r Inl c
        have "P dw (s\<lparr>world := w, calls := calls s @ [webhook_fetch nm],
                          logs := logs s @ (if c = 404 then []
                                            else [webhook_fetch_error (JStr nm) (HTTPError c)])\<rparr>)"
          by simp
        from IH [OF this] Inl r 2 nm new item c show ?thesis
          by (simp del: webhooks_check_source.simps add: check_source_http_error)
      next
        case (Inr resp)
        from ok [OF nm _ Cons.prems(2)] r Inr
        have "P (AList.update (JStr nm) resp dw)
                (s\<lparr>world := w, calls := calls s @ [webhook_fetch nm]\<rparr>)"
          by simp
        from IH [OF this] Inr r 2 nm new item show ?thesis
          by (simp del: webhooks_check_source.simps add: check_source_ok)
      qed
    qed
  qed
qed

lemma fetch_fails_not_ok:
  assumes "client (webhook_fetch nm) w = (Inr resp, w')"
  shows "\<not> fetch_fails client nm c"
  using assms unfolding fetch_fails_def by (metis Inl_Inr_False fst_conv)

lemma fetch_fails_status:
  assumes "client (webhook_fetch nm) w = (Inl (HTTPError c'), w')" and "fetch_fails client nm c"
  shows "c' = c"
  using assms unfolding fetch_fails_def by (metis error.inject(2) fst_conv sum.inject(1))

lemma fetch_succeeds_not_error:
  assumes "client (webhook_fetch nm) w = (Inl e, w')"
  shows "\<not> fetch_succeeds client nm"
  using assms unfolding fetch_succeeds_def by (metis Inl_Inr_False fst_conv)

text \<open>What the first loop leaves, started on an empty cache.\<close>

lemma webhooks_check_destination_result:
  fixes client :: "'w client"
  assumes entries: "\<forall>item \<in> set items. webhook_entry (snd item)"
    and http: "http_only client"
  shows "\<exists>dw s'. webhooks_check_destination client items [] s = (Inr dw, s')
           \<and> (\<forall>k \<in> fst ` set dw. \<exists>nm. k = JStr nm \<and> (\<exists>w resp w'. client (webhook_fetch nm) w = (Inr resp, w')))
           \<and> (\<forall>nm \<in> set (webhook_names items).
                 webhook_fetch nm \<in> set (calls s')
               \<and> (fetch_fails client nm 404 \<longrightarrow> webhook_not_found (JStr nm) \<in> set (logs s'))
               \<and> (\<forall>c. c \<noteq> 404 \<and> fetch_fails client nm c \<longrightarrow>
                      webhook_fetch_error (JStr nm) (HTTPError c) \<in> set (logs s'))
               \<and> (fetch_succeeds client nm \<longrightarrow> JStr nm \<in> fst ` set dw))"
proof -
  let ?P = "\<lambda>ns (dw :: (json \<times> json) list) (s' :: 'w adapter).
      (\<forall>k \<in> fst ` set dw. \<exists>nm. k = JStr nm \<and> (\<exists>w resp w'. client (webhook_fetch nm) w = (Inr resp, w')))
    \<and> (\<forall>nm \<in> set ns.
          webhook_fetch nm \<in> set (calls s')
        \<and> (fetch_fails client nm 404 \<longrightarrow> webhook_not_found (JStr nm) \<in> set (logs s'))
        \<and> (\<forall>c. c \<noteq> 404 \<and> fetch_fails client nm c \<longrightarrow>
               webhook_fetch_error (JStr nm) (HTTPError c) \<in> set (logs s'))
        \<and> (fetch_succeeds client nm \<longrightarrow> JStr nm \<in> fst ` set dw))"
  have "\<exists>dw s'. webhooks_check_destination client items [] s = (Inr dw, s')
           \<and> ?P ([] @ webhook_names items) dw s'"
  proof (rule webhooks_check_destination_rule [OF entries http, where P = ?P])
    show "?P [] [] s" by simp
  next
    fix nm resp w ns dw and s :: "'w adapter"
    assume nm: "nm \<noteq> []" and r: "client (webhook_fetch nm) (world s) = (Inr resp, w)"
      and P: "?P ns dw s"
    show "?P (ns @ [nm]) (AList.update (JStr nm) resp dw)
            (s\<lparr>world := w, calls := calls s @ [webhook_fetch nm]\<rparr>)"
      using P r fetch_fails_not_ok [of client nm "world s" resp w]
      by (auto simp add: dom_update)
  next
    fix nm c w ns dw and s :: "'w adapter"
    assume nm: "nm \<noteq> []" and r: "client (webhook_fetch nm) (world s) = (Inl (HTTPError c), w)"
      and P: "?P ns dw s"
    show "?P (ns @ [nm]) dw (s\<lparr>world := w, calls := calls s @ [webhook_fetch nm],
                          logs := logs s @ [if c = 404 then webhook_not_found (JStr nm)
                                            else webhook_fetch_error (JStr nm) (HTTPError c)]\<rparr>)"
      using P r fetch_fails_status [of client nm "world s" c w]
        fetch_succeeds_not_error [of client nm "world s" "HTTPError c" w]
      by auto
  qed
  then show ?thesis by simp
qed

text \<open>What the second loop keeps.\<close>

lemma webhooks_check_source_result:
  fixes client :: "'w client"
  assumes entries: "\<forall>item \<in> set items. webhook_entry (snd item)"
    and http: "http_only client"
    and keys: "\<forall>k \<in> fst ` set dw. \<exists>nm. k = JStr nm \<and> (\<exists>w resp w'. client (webhook_fetch nm) w = (Inr resp, w'))"
  shows "\<exists>dw' s'. webhooks_check_source client items dw s = (Inr dw', s')
           \<and> (\<forall>k \<in> fst ` set dw'. \<exists>nm. k = JStr nm \<and> (\<exists>w resp w'. client (webhook_fetch nm) w = (Inr resp, w')))
           \<and> fst ` set dw \<subseteq> fst ` set dw'
           \<and> set (calls s) \<subseteq> set (calls s') \<and> set (logs s) \<subseteq> set (logs s')"
proof -
  let ?Q = "\<lambda>(dw' :: (json \<times> json) list) (s' :: 'w adapter).
      (\<forall>k \<in> fst ` set dw'. \<exists>nm. k = JStr nm \<and> (\<exists>w resp w'. client (webhook_fetch nm) w = (Inr resp, w')))
    \<and> fst ` set dw \<subseteq> fst ` set dw'
    \<and> set (calls s) \<subseteq> set (calls s') \<and> set (logs s) \<subseteq> set (logs s')"
  show ?thesis
  proof (rule webhooks_check_source_rule [OF entries http, where P = ?Q])
    show "?Q dw s" using keys by simp
  next
    fix nm resp w dw' and s' :: "'w adapter"
    assume "nm \<noteq> []" and r: "client (webhook_fetch nm) (world s') = (Inr resp, w)" and Q: "?Q dw' s'"
    show "?Q (AList.update (JStr nm) resp dw')
            (s'\<lparr>world := w, calls := calls s' @ [webhook_fetch nm]\<rparr>)"
      using Q r by (auto simp add: dom_update)
  next
    fix nm :: string and c :: nat and w :: 'w and dw' and s' :: "'w adapter"
    assume "nm \<noteq> []" and Q: "?Q dw' s'"
    show "?Q dw' (s'\<lparr>world := w, calls := calls s' @ [webhook_fetch nm],
                          logs := logs s' @ (if c = 404 then []
                                            else [webhook_fetch_error (JStr nm) (HTTPError c)])\<rparr>)"
      using Q by auto
  qed
qed

text \<open>
  C8. The webhooks have no list endpoint: \<^verbatim>\<open>get_destination_webhooks\<close> goes through the
  entries of \<^verbatim>\<open>state.destination[resource_type]\<close> and fetches each by its name. When the
  entries of the State Store are mappings with string names and the client raises nothing
  but HTTP errors, building the cache returns a cache and does not raise, and so does
  \<^verbatim>\<open>pre_apply_hook\<close>, which installs it. Every named destination entry is fetched. A
  name whose fetch answers 404 is not in the cache and a debug line is logged for it; a
  name whose fetch fails with another HTTP status is not in the cache and a warning is
  logged for it; a name whose fetch succeeds is in the cache, whatever happened to the
  others.
\<close>

theorem webhooks_cache_build_tolerates_http_errors:
  fixes client :: "'w client"
  assumes entries: "\<forall>item \<in> set (destination s) \<union> set (source s). webhook_entry (snd item)"
    and http: "http_only client"
  shows "\<exists>dw s'. webhooks_get_destination_webhooks client s = (Inr dw, s')
           \<and> webhooks_pre_apply_hook client s = (Inr (), s'\<lparr>cache := dw\<rparr>)
           \<and> (\<forall>nm \<in> set (webhook_names (destination s)).
                 webhook_fetch nm \<in> set (calls s')
               \<and> (fetch_fails client nm 404 \<longrightarrow>
                      JStr nm \<notin> fst ` set dw \<and> webhook_not_found (JStr nm) \<in> set (logs s'))
               \<and> (\<forall>c. c \<noteq> 404 \<and> fetch_fails client nm c \<longrightarrow>
                      JStr nm \<notin> fst ` set dw
                    \<and> webhook_fetch_error (JStr nm) (HTTPError c) \<in> set (logs s'))
               \<and> (fetch_succeeds client nm \<longrightarrow> JStr nm \<in> fst ` set dw))"
proof -
  from entries have e1: "\<forall>item \<in> set (destination s). webhook_entry (snd item)"
    and e2: "\<forall>item \<in> set (source s). webhook_entry (snd item)"
    by simp_all
  from webhooks_check_destination_result [OF e1 http, of s]
  obtain dw1 where "\<exists>s1. webhooks_check_destination client (destination s) [] s = (Inr dw1, s1)
      \<and> (\<forall>k \<in> fst ` set dw1. \<exists>nm. k = JStr nm
            \<and> (\<exists>w resp w'. client (webhook_fetch nm) w = (Inr resp, w')))
      \<and> (\<forall>nm \<in> set (webhook_names (destination s)).
                 webhook_fetch nm \<in> set (calls s1)
               \<and> (fetch_fails client nm 404 \<longrightarrow> webhook_not_found (JStr nm) \<in> set (logs s1))
               \<and> (\<forall>c. c \<noteq> 404 \<and> fetch_fails client nm c \<longrightarrow>
                      webhook_fetch_error (JStr nm) (HTTPError c) \<in> set (logs s1))
               \<and> (fetch_succeeds client nm \<longrightarrow> JStr nm \<in> fst ` set dw1))" ..
  then obtain s1 where R1: "webhooks_check_destination client (destination s) [] s = (Inr dw1, s1)
      \<and> (\<forall>k \<in> fst ` set dw1. \<exists>nm. k = JStr nm
            \<and> (\<exists>w resp w'. client (webhook_fetch nm) w = (Inr resp, w')))
      \<and> (\<forall>nm \<in> set (webhook_names (destination s)).
                 webhook_fetch nm \<in> set (calls s1)
               \<and> (fetch_fails client nm 404 \<longrightarrow> webhook_not_found (JStr nm) \<in> set (logs s1))
               \<and> (\<forall>c. c \<noteq> 404 \<and> fetch_fails client nm c \<longrightarrow>
                      webhook_fetch_error (JStr nm) (HTTPError c) \<in> set (logs s1))
               \<and> (fetch_succeeds client nm \<longrightarrow> JStr nm \<in> fst ` set dw1))" ..
  note first = R1 [THEN conjunct1]
  note keys1 = R1 [THEN conjunct2, THEN conjunct1]
  note names1 = R1 [THEN conjunct2, THEN conjunct2]
  have "\<exists>dw' s'. webhooks_check_destination client (destination s) [] s = (Inr dw', s')
          \<and> source s' = source s"
    by (rule webhooks_check_destination_rule
          [OF e1 http, where P = "\<lambda>ns dw s'. source s' = source s" and ns = "[]"]) simp_all
  with first have src: "source s1 = source s"
    by simp
  from webhooks_check_source_result [OF e2 http keys1, of s1]
  obtain dw where "\<exists>s'. webhooks_check_source client (source s) dw1 s1 = (Inr dw, s')
      \<and> (\<forall>k \<in> fst ` set dw. \<exists>nm. k = JStr nm
            \<and> (\<exists>w resp w'. client (webhook_fetch nm) w = (Inr resp, w')))
      \<and> fst ` set dw1 \<subseteq> fst ` set dw
      \<and> set (calls s1) \<subseteq> set (calls s') \<and> set (logs s1) \<subseteq> set (logs s')" ..
  then obtain s' where R2: "webhooks_check_source client (source s) dw1 s1 = (Inr dw, s')
      \<and> (\<forall>k \<in> fst ` set dw. \<exists>nm. k = JStr nm
            \<and> (\<exists>w resp w'. client (webhook_fetch nm) w = (Inr resp, w')))
      \<and> fst ` set dw1 \<subseteq> fst ` set dw
      \<and> set (calls s1) \<subseteq> set (calls s') \<and> set (logs s1) \<subseteq> set (logs s')" ..
  note second = R2 [THEN conjunct1]
  note keys = R2 [THEN conjunct2, THEN conjunct1]
  note mono_keys = R2 [THEN conjunct2, THEN conjunct2, THEN conjunct1]
  note mono_calls = R2 [THEN conjunct2, THEN conjunct2, THEN conjunct2, THEN conjunct1]
  note mono_logs = R2 [THEN conjunct2, THEN conjunct2, THEN conjunct2, THEN conjunct2]
  have run: "webhooks_get_destination_webhooks client s = (Inr dw, s')"
    using first second src
    by (simp add: webhooks_get_destination_webhooks_def seq_def read_def)
  have hook: "webhooks_pre_apply_hook client s = (Inr (), s'\<lparr>cache := dw\<rparr>)"
    using run by (simp add: webhooks_pre_apply_hook_def seq_def modify_def)
  have absent: "JStr nm \<notin> fst ` set dw" if "fetch_fails client nm c" for nm c
  proof
    assume "JStr nm \<in> fst ` set dw"
    with keys obtain w resp w' where "client (webhook_fetch nm) w = (Inr resp, w')"
      by blast
    with that show False
      using fetch_fails_not_ok [of client nm w resp w' c] by simp
  qed
  have each: "\<forall>nm \<in> set (webhook_names (destination s)).
                 webhook_fetch nm \<in> set (calls s')
               \<and> (fetch_fails client nm 404 \<longrightarrow>
                      JStr nm \<notin> fst ` set dw \<and> webhook_not_found (JStr nm) \<in> set (logs s'))
               \<and> (\<forall>c. c \<noteq> 404 \<and> fetch_fails client nm c \<longrightarrow>
                      JStr nm \<notin> fst ` set dw
                    \<and> webhook_fetch_error (JStr nm) (HTTPError c) \<in> set (logs s'))
               \<and> (fetch_succeeds client nm \<longrightarrow> JStr nm \<in> fst ` set dw)"
  proof (intro ballI conjI impI allI)
    fix nm
    assume nm: "nm \<in> set (webhook_names (destination s))"
    note n = names1 [rule_format, OF nm]
    from n [THEN conjunct1] mono_calls show "webhook_fetch nm \<in> set (calls s')" by (rule subsetD [rotated])
    {
      assume f: "fetch_fails client nm 404"
      from f show "JStr nm \<notin> fst ` set dw" by (rule absent)
      from n [THEN conjunct2, THEN conjunct1, rule_format, OF f] mono_logs
      show "webhook_not_found (JStr nm) \<in> set (logs s')" by (rule subsetD [rotated])
    }
    {
      fix c
      assume f: "c \<noteq> 404 \<and> fetch_fails client nm c"
      from f [THEN conjunct2] show "JStr nm \<notin> fst ` set dw" by (rule absent)
      from n [THEN conjunct2, THEN conjunct2, THEN conjunct1, rule_format, OF f] mono_logs
      show "webhook_fetch_error (JStr nm) (HTTPError c) \<in> set (logs s')" by (rule subsetD [rotated])
    }
    {
      assume f: "fetch_succeeds client nm"
      from n [THEN conjunct2, THEN conjunct2, THEN conjunct2, rule_format, OF f] mono_keys
      show "JStr nm \<in> fst ` set dw" by (rule subsetD [rotated])
    }
  qed
  from run hook each show ?thesis
    by (intro exI conjI)
qed

theorem webhooks_cache_build_tolerates_http_errors_witness:
  "\<exists>dw s'. webhooks_get_destination_webhooks webhooks_example_client webhooks_example_adapter
               = (Inr dw, s')
     \<and> JStr ''gone'' \<notin> fst ` set dw \<and> webhook_not_found (JStr ''gone'') \<in> set (logs s')
     \<and> JStr ''broken'' \<notin> fst ` set dw
     \<and> webhook_fetch_error (JStr ''broken'') (HTTPError 500) \<in> set (logs s')
     \<and> JStr ''live'' \<in> fst ` set dw"
proof -
  have entries: "\<forall>item \<in> set (destination webhooks_example_adapter) \<union> set (source webhooks_example_adapter).
                   webhook_entry (snd item)"
    by (simp add: webhooks_example_adapter_def)
  have http: "http_only webhooks_example_client"
    by (auto simp add: http_only_def webhooks_example_client_def)
  have names: "webhook_names (destination webhooks_example_adapter) = [''gone'', ''broken'', ''live'']"
    by (simp add: webhooks_example_adapter_def)
  have gone: "fetch_fails webhooks_example_client ''gone'' 404"
    by (simp add: fetch_fails_def webhooks_example_client_def)
  have broken: "fetch_fails webhooks_example_client ''broken'' 500"
    by (simp add: fetch_fails_def webhooks_example_client_def webhook_fetch_def)
  have live: "fetch_succeeds webhooks_example_client ''live''"
    by (simp add: fetch_succeeds_def webhooks_example_client_def webhook_fetch_def)
  from webhooks_cache_build_tolerates_http_errors [OF entries http]
  obtain dw where "\<exists>s'. webhooks_get_destination_webhooks webhooks_example_client
        webhooks_example_adapter = (Inr dw, s')
     \<and> webhooks_pre_apply_hook webhooks_example_client webhooks_example_adapter
           = (Inr (), s'\<lparr>cache := dw\<rparr>)
     \<and> (\<forall>nm \<in> set (webhook_names (destination webhooks_example_adapter)).
                 webhook_fetch nm \<in> set (calls s')
               \<and> (fetch_fails webhooks_example_client nm 404 \<longrightarrow>
                      JStr nm \<notin> fst ` set dw \<and> webhook_not_found (JStr nm) \<in> set (logs s'))
               \<and> (\<forall>c. c \<noteq> 404 \<and> fetch_fails webhooks_example_client nm c \<longrightarrow>
                      JStr nm \<notin> fst ` set dw
                    \<and> webhook_fetch_error (JStr nm) (HTTPError c) \<in> set (logs s'))
               \<and> (fetch_succeeds webhooks_example_client nm \<longrightarrow> JStr nm \<in> fst ` set dw))" ..
  then obtain s' where R: "webhooks_get_destination_webhooks webhooks_example_client
        webhooks_example_adapter = (Inr dw, s')
     \<and> webhooks_pre_apply_hook webhooks_example_client webhooks_example_adapter
           = (Inr (), s'\<lparr>cache := dw\<rparr>)
     \<and> (\<forall>nm \<in> set (webhook_names (destination webhooks_example_adapter)).
                 webhook_fetch nm \<in> set (calls s')
               \<and> (fetch_fails webhooks_example_client nm 404 \<longrightarrow>
                      JStr nm \<notin> fst ` set dw \<and> webhook_not_found (JStr nm) \<in> set (logs s'))
               \<and> (\<forall>c. c \<noteq> 404 \<and> fetch_fails webhooks_example_client nm c \<longrightarrow>
                      JStr nm \<notin> fst ` set dw
                    \<and> webhook_fetch_error (JStr nm) (HTTPError c) \<in> set (logs s'))
               \<and> (fetch_succeeds webhooks_example_client nm \<longrightarrow> JStr nm \<in> fst ` set dw))" ..
  note run = R [THEN conjunct1]
  note each = R [THEN conjunct2, THEN conjunct2, rule_format]
  have in_names: "''gone'' \<in> set (webhook_names (destination webhooks_example_adapter))"
    "''broken'' \<in> set (webhook_names (destination webhooks_example_adapter))"
    "''live'' \<in> set (webhook_names (destination webhooks_example_adapter))"
    unfolding names by simp_all
  note g = each [OF in_names(1), THEN conjunct2, THEN conjunct1, rule_format, OF gone]
  have "(500::nat) \<noteq> 404 \<and> fetch_fails webhooks_example_client ''broken'' 500"
    using broken by simp
  note b = each [OF in_names(2), THEN conjunct2, THEN conjunct2, THEN conjunct1, rule_format, OF this]
  note l = each [OF in_names(3), THEN conjunct2, THEN conjunct2, THEN conjunct2, rule_format, OF live]
  from run g b l show ?thesis
    by blast
qed

subsection \<open>Listings without their envelope\<close>

lemma keyed_listing_missing:
  assumes "client (GET path) (world s) = (Inr (JDict body), w)" and "map_of body key = None"
  shows "fst (seq (send client (GET path)) (\<lambda>resp. lift (py_get resp key (JList []))) s) = Inr (JList [])"
  using assms by (simp add: seq_def send_def lift_def)

text \<open>
  C7. A listing whose response lacks its envelope gives the empty list and does not
  raise: for AWS (\<^verbatim>\<open>accounts\<close>), Fastly and GCP (\<^verbatim>\<open>data\<close>) and PagerDuty
  (\<^verbatim>\<open>services\<close>) when the body is an object without the key, for Azure and Slack when
  the body is not a list, and for Slack also when the account listing is fine and the
  channel listing of the account is not a list.
\<close>

theorem get_resources_missing_envelope:
  "(client (GET aws_base_path) (world s) = (Inr (JDict body), w) \<and> map_of body ''accounts'' = None \<longrightarrow>
      fst (aws_get_resources client s) = Inr (JList []))
   \<and> (client (GET fastly_base_path) (world s) = (Inr (JDict body), w) \<and> map_of body ''data'' = None \<longrightarrow>
      fst (fastly_get_resources client s) = Inr (JList []))
   \<and> (client (GET gcp_base_path) (world s) = (Inr (JDict body), w) \<and> map_of body ''data'' = None \<longrightarrow>
      fst (gcp_get_resources client s) = Inr (JList []))
   \<and> (client (GET pagerduty_base_path) (world s) = (Inr (JDict body), w)
        \<and> map_of body ''services'' = None \<longrightarrow>
      fst (pagerduty_get_resources client s) = Inr (JList []))
   \<and> (client (GET azure_base_path) (world s) = (Inr resp, w) \<and> \<not> is_list resp \<longrightarrow>
      fst (azure_get_resources client s) = Inr (JList []))
   \<and> (client (GET slack_base_path) (world s) = (Inr resp, w) \<and> \<not> is_list resp \<longrightarrow>
      fst (slack_get_resources client s) = Inr (JList []))
   \<and> (client (GET slack_base_path) (world s) = (Inr (JList [JDict account]), w)
        \<and> map_of account ''name'' = Some (JStr nm) \<and> nm \<noteq> []
        \<and> client (GET (slack_base_path @ ''/'' @ nm @ ''/channels'')) w = (Inr resp, w')
        \<and> \<not> is_list resp \<longrightarrow>
      fst (slack_get_resources client s) = Inr (JList []))"
proof (intro conjI impI)
  assume "client (GET aws_base_path) (world s) = (Inr (JDict body), w) \<and> map_of body ''accounts'' = None"
  then show "fst (aws_get_resources client s) = Inr (JList [])"
    unfolding aws_get_resources_def by (simp add: keyed_listing_missing)
next
  assume "client (GET fastly_base_path) (world s) = (Inr (JDict body), w) \<and> map_of body ''data'' = None"
  then show "fst (fastly_get_resources client s) = Inr (JList [])"
    unfolding fastly_get_resources_def by (simp add: keyed_listing_missing)
next
  assume "client (GET gcp_base_path) (world s) = (Inr (JDict body), w) \<and> map_of body ''data'' = None"
  then show "fst (gcp_get_resources client s) = Inr (JList [])"
    unfolding gcp_get_resources_def by (simp add: keyed_listing_missing)
next
  assume "client (GET pagerduty_base_path) (world s) = (Inr (JDict body), w)
    \<and> map_of body ''services'' = None"
  then show "fst (pagerduty_get_resources client s) = Inr (JList [])"
    unfolding pagerduty_get_resources_def by (simp add: keyed_listing_missing)
next
  assume "client (GET azure_base_path) (world s) = (Inr resp, w) \<and> \<not> is_list resp"
  then show "fst (azure_get_resources client s) = Inr (JList [])"
    by (simp add: azure_get_resources_def seq_def send_def ret_def)
next
  assume "client (GET slack_base_path) (world s) = (Inr resp, w) \<and> \<not> is_list resp"
  then show "fst (slack_get_resources client s) = Inr (JList [])"
    by (cases resp) (simp_all add: slack_get_resources_def seq_def send_def ret_def)
next
  assume h: "client (GET slack_base_path) (world s) = (Inr (JList [JDict account]), w)
        \<and> map_of account ''name'' = Some (JStr nm) \<and> nm \<noteq> []
        \<and> client (GET (slack_base_path @ ''/'' @ nm @ ''/channels'')) w = (Inr resp, w')
        \<and> \<not> is_list resp"
  then have "(case resp of JList xs \<Rightarrow> xs | _ \<Rightarrow> []) = []"
    by (cases resp) simp_all
  with h show "fst (slack_get_resources client s) = Inr (JList [])"
    by (simp add: slack_get_resources_def seq_def send_def ret_def lift_def attempt_def ebind_def
        py_str_def Let_def)
qed

theorem get_resources_missing_envelope_witness:
  "fst (aws_get_resources example_client example_adapter) = Inr (JList [])
   \<and> fst (fastly_get_resources example_client example_adapter) = Inr (JList [])
   \<and> fst (gcp_get_resources example_client example_adapter) = Inr (JList [])
   \<and> fst (pagerduty_get_resources example_client example_adapter) = Inr (JList [])
   \<and> fst (azure_get_resources example_client example_adapter) = Inr (JList [])
   \<and> fst (slack_get_resources example_client example_adapter) = Inr (JList [])
   \<and> fst (slack_get_resources slack_accounts_client example_adapter) = Inr (JList [])"
proof -
  have a: "fst (aws_get_resources example_client example_adapter) = Inr (JList [])
   \<and> fst (fastly_get_resources example_client example_adapter) = Inr (JList [])
   \<and> fst (gcp_get_resources example_client example_adapter) = Inr (JList [])
   \<and> fst (pagerduty_get_resources example_client example_adapter) = Inr (JList [])
   \<and> fst (azure_get_resources example_client example_adapter) = Inr (JList [])
   \<and> fst (slack_get_resources example_client example_adapter) = Inr (JList [])"
    using get_resources_missing_envelope
      [where client = example_client and s = example_adapter and body = "[]" and w = "()"
         and resp = "JDict []" and account = "[]" and nm = "[]" and w' = "()"]
    by (simp add: example_client_def)
  have "GET (slack_base_path @ ''/'' @ ''T1'' @ ''/channels'') \<noteq> GET slack_base_path"
    by simp
  then have b: "fst (slack_get_resources slack_accounts_client example_adapter) = Inr (JList [])"
    using get_resources_missing_envelope
      [where client = slack_accounts_client and s = example_adapter and body = "[]" and w = "()"
         and resp = "JDict [(''errors'', JList [JStr ''not available''])]"
         and account = "[(''name'', JStr ''T1'')]" and nm = "''T1''" and w' = "()"]
    by (simp add: slack_accounts_client_def)
  from a b show ?thesis by simp
qed

subsection \<open>Slack: the payload of a request\<close>

lemma slack_update_calls:
  "\<exists>path. calls (snd (slack_update_resource client ident resource s))
            = calls s @ [PATCH path (JDict (slack_prepare_payload resource))]"
  by (auto simp add: slack_update_resource_def action_defs Let_def split: sum.splits prod.splits)

lemma slack_create_calls:
  "\<exists>rq. calls (snd (slack_create_resource client ident resource s)) = calls s @ [rq]
         \<and> request_body rq = Some (JDict (slack_prepare_payload resource))
         \<and> (is_post rq \<or> is_patch rq)"
proof (cases "JStr ident \<in> fst ` set (cache s)")
  case True
  then obtain cached where "map_of (cache s) (JStr ident) = Some cached"
    by (metis domD dom_map_of_conv_image_fst)
  from slack_create_delegates [OF this, of client resource]
    slack_update_calls [of client ident resource "stored ident cached s"]
  show ?thesis by auto
next
  case False
  then show ?thesis
    by (auto simp add: slack_create_resource_def cache_in_def ebind_def action_defs Let_def
        split: sum.splits prod.splits)
qed

text \<open>
  C10. \<^verbatim>\<open>_prepare_payload\<close> leaves its argument as it was: on a heap of dict objects the
  payload is a new object, every object there was before the call is unchanged after it,
  and the new object holds the items of the argument without \<^verbatim>\<open>_account_name\<close>, each
  other field with the value it has in the argument and in the same order. Every call of
  \<^verbatim>\<open>create_resource\<close> and of \<^verbatim>\<open>update_resource\<close> issues exactly one request, whose body
  is that payload, so that no request body has the field \<^verbatim>\<open>_account_name\<close>.
\<close>

theorem slack_prepare_payload_frame:
  "(resource_at < length heap \<longrightarrow>
      (\<exists>payload heap'. slack_prepare_payload_heap heap resource_at = Some (payload, heap')
         \<and> payload = length heap \<and> length heap' = Suc (length heap)
         \<and> (\<forall>a < length heap. heap' ! a = heap ! a)
         \<and> heap' ! payload = slack_prepare_payload (heap ! resource_at)))
   \<and> ''_account_name'' \<notin> fst ` set (slack_prepare_payload resource)
   \<and> (\<forall>k. k \<noteq> ''_account_name'' \<longrightarrow>
          map_of (slack_prepare_payload resource) k = map_of resource k)
   \<and> slack_prepare_payload resource = filter (\<lambda>kv. fst kv \<noteq> ''_account_name'') resource
   \<and> (\<exists>path. calls (snd (slack_update_resource client ident resource s))
                 = calls s @ [PATCH path (JDict (slack_prepare_payload resource))])
   \<and> (\<exists>rq. calls (snd (slack_create_resource client ident resource s)) = calls s @ [rq]
         \<and> request_body rq = Some (JDict (slack_prepare_payload resource))
         \<and> (is_post rq \<or> is_patch rq))"
proof (intro conjI impI allI)
  assume "resource_at < length heap"
  then show "\<exists>payload heap'. slack_prepare_payload_heap heap resource_at = Some (payload, heap')
         \<and> payload = length heap \<and> length heap' = Suc (length heap)
         \<and> (\<forall>a < length heap. heap' ! a = heap ! a)
         \<and> heap' ! payload = slack_prepare_payload (heap ! resource_at)"
    by (simp add: slack_prepare_payload_heap_def slack_prepare_payload_def Let_def nth_append)
next
  show "''_account_name'' \<notin> fst ` set (slack_prepare_payload resource)"
    unfolding slack_prepare_payload_def by (rule delete_notin_dom)
next
  fix k :: string
  assume "k \<noteq> ''_account_name''"
  then show "map_of (slack_prepare_payload resource) k = map_of resource k"
    unfolding slack_prepare_payload_def by (rule map_of_delete)
next
  show "slack_prepare_payload resource = filter (\<lambda>kv. fst kv \<noteq> ''_account_name'') resource"
    by (induction resource) (auto simp add: slack_prepare_payload_def)
next
  show "\<exists>path. calls (snd (slack_update_resource client ident resource s))
                 = calls s @ [PATCH path (JDict (slack_prepare_payload resource))]"
    by (rule slack_update_calls)
next
  show "\<exists>rq. calls (snd (slack_create_resource client ident resource s)) = calls s @ [rq]
         \<and> request_body rq = Some (JDict (slack_prepare_payload resource))
         \<and> (is_post rq \<or> is_patch rq)"
    by (rule slack_create_calls)
qed

theorem slack_prepare_payload_frame_witness:
  "slack_prepare_payload_heap example_heap 0
     = Some (2, example_heap
               @ [[(''name'', JStr ''#ops''), (''display'', JDict [(''message'', JBool True)])]])"
proof -
  have "(0::nat) < length example_heap"
    by (simp add: example_heap_def)
  with slack_prepare_payload_frame [of 0 example_heap]
  obtain payload heap' where r: "slack_prepare_payload_heap example_heap 0 = Some (payload, heap')"
    and p: "payload = length example_heap" and l: "length heap' = Suc (length example_heap)"
    and old: "\<forall>a < length example_heap. heap' ! a = example_heap ! a"
    and new: "heap' ! payload = slack_prepare_payload (example_heap ! 0)"
    by blast
  have "heap' = example_heap @ [slack_prepare_payload (example_heap ! 0)]"
    using p l old new by (intro nth_equalityI) (auto simp add: nth_append less_Suc_eq)
  then show ?thesis
    using r p by (simp add: example_heap_def slack_prepare_payload_def)
qed

subsection \<open>Identity resolution at import\<close>

text \<open>
  C3, as the claim states it, fails for the adapters whose identity is a single field:
  a Fastly account without \<^verbatim>\<open>id\<close> makes \<^verbatim>\<open>import_resource\<close> raise \<^verbatim>\<open>KeyError\<close>.
\<close>

theorem fastly_import_without_id_raises:
  "fastly_import_resource example_client None
     (JDict [(''attributes'', JDict [(''name'', JStr ''acct'')])]) example_adapter
     = (Inl (KeyError (JStr ''id'')), example_adapter)"
  by (simp add: fastly_import_resource_def action_defs)

text \<open>
  C3, amended. For a given instance (no \<^verbatim>\<open>_id\<close> to fetch), \<^verbatim>\<open>import_resource\<close> of the
  composite-key adapters AWS, Azure and Slack returns a key string for every mapping, and
  the key is \<^verbatim>\<open>":"\<close> when all composing fields are absent. For a service definition
  without \<^verbatim>\<open>attributes\<close> it returns a key as well, the empty string when
  \<^verbatim>\<open>dd-service\<close>, \<^verbatim>\<open>name\<close> and \<^verbatim>\<open>id\<close> are absent too. The adapters whose identity
  is one field index the instance: Fastly and GCP (\<^verbatim>\<open>id\<close>), PagerDuty
  (\<^verbatim>\<open>service_name\<close>) and webhooks (\<^verbatim>\<open>name\<close>) return the value of the field when it is
  present and raise \<^verbatim>\<open>KeyError\<close> when it is absent.
\<close>

theorem import_resource_identity:
  "(\<exists>key. aws_import_resource client None (JDict d) s = (Inr (key, JDict d), s))
   \<and> (\<exists>key. azure_import_resource client None (JDict d) s = (Inr (key, JDict d), s))
   \<and> (\<exists>key. slack_import_resource client None (JDict d) s = (Inr (key, JDict d), s))
   \<and> (map_of d ''account_id'' = None \<and> map_of d ''role_name'' = None
        \<and> map_of d ''access_key_id'' = None \<longrightarrow>
      aws_import_resource client None (JDict d) s = (Inr ('':'', JDict d), s))
   \<and> (map_of d ''tenant_name'' = None \<and> map_of d ''client_id'' = None \<longrightarrow>
      azure_import_resource client None (JDict d) s = (Inr ('':'', JDict d), s))
   \<and> (map_of d ''_account_name'' = None \<and> map_of d ''channel_name'' = None
        \<and> map_of d ''name'' = None \<longrightarrow>
      slack_import_resource client None (JDict d) s = (Inr ('':'', JDict d), s))
   \<and> (map_of d ''attributes'' = None \<longrightarrow>
      (\<exists>key. sd_import_resource client None (JDict d) s = (Inr (key, JDict d), s)))
   \<and> (map_of d ''attributes'' = None \<and> map_of d ''dd-service'' = None \<and> map_of d ''name'' = None
        \<and> map_of d ''id'' = None \<longrightarrow>
      sd_import_resource client None (JDict d) s = (Inr (JStr [], JDict d), s))
   \<and> fastly_import_resource client None (JDict d) s
       = (case map_of d ''id'' of Some v \<Rightarrow> Inr (v, JDict d) | None \<Rightarrow> Inl (KeyError (JStr ''id'')), s)
   \<and> gcp_import_resource client None (JDict d) s
       = (case map_of d ''id'' of Some v \<Rightarrow> Inr (v, JDict d) | None \<Rightarrow> Inl (KeyError (JStr ''id'')), s)
   \<and> pagerduty_import_resource client None (JDict d) s
       = (case map_of d ''service_name'' of Some v \<Rightarrow> Inr (v, JDict d)
          | None \<Rightarrow> Inl (KeyError (JStr ''service_name'')), s)
   \<and> webhooks_import_resource client None (JDict d) s
       = (case map_of d ''name'' of Some v \<Rightarrow> Inr (v, JDict d)
          | None \<Rightarrow> Inl (KeyError (JStr ''name'')), s)"
proof (intro conjI impI)
  show "\<exists>key. aws_import_resource client None (JDict d) s = (Inr (key, JDict d), s)"
    by (simp add: aws_import_resource_def aws_get_resource_id_def ebind_def action_defs)
  show "\<exists>key. azure_import_resource client None (JDict d) s = (Inr (key, JDict d), s)"
    by (simp add: azure_import_resource_def azure_get_resource_id_def ebind_def action_defs)
  show "\<exists>key. slack_import_resource client None (JDict d) s = (Inr (key, JDict d), s)"
    by (simp add: slack_import_resource_def slack_get_composite_id_def ebind_def action_defs)
next
  assume "map_of d ''account_id'' = None \<and> map_of d ''role_name'' = None
        \<and> map_of d ''access_key_id'' = None"
  then show "aws_import_resource client None (JDict d) s = (Inr ('':'', JDict d), s)"
    by (simp add: aws_import_resource_def aws_get_resource_id_def ebind_def action_defs py_str_def)
next
  assume "map_of d ''tenant_name'' = None \<and> map_of d ''client_id'' = None"
  then show "azure_import_resource client None (JDict d) s = (Inr ('':'', JDict d), s)"
    by (simp add: azure_import_resource_def azure_get_resource_id_def ebind_def action_defs py_str_def)
next
  assume "map_of d ''_account_name'' = None \<and> map_of d ''channel_name'' = None
        \<and> map_of d ''name'' = None"
  then show "slack_import_resource client None (JDict d) s = (Inr ('':'', JDict d), s)"
    by (simp add: slack_import_resource_def slack_get_composite_id_def ebind_def action_defs py_str_def)
next
  assume a: "map_of d ''attributes'' = None"
  then have "''attributes'' \<notin> fst ` set d"
    by (simp add: map_of_eq_None_iff)
  then show "\<exists>key. sd_import_resource client None (JDict d) s = (Inr (key, JDict d), s)"
    by (auto simp add: sd_import_resource_def sd_get_service_name_def ebind_def action_defs
        map_of_eq_None_iff [symmetric] split: option.splits)
next
  assume h: "map_of d ''attributes'' = None \<and> map_of d ''dd-service'' = None \<and> map_of d ''name'' = None
        \<and> map_of d ''id'' = None"
  then have "''attributes'' \<notin> fst ` set d" "''dd-service'' \<notin> fst ` set d" "''name'' \<notin> fst ` set d"
    by (simp_all add: map_of_eq_None_iff)
  with h show "sd_import_resource client None (JDict d) s = (Inr (JStr [], JDict d), s)"
    by (simp add: sd_import_resource_def sd_get_service_name_def ebind_def action_defs)
next
  show "fastly_import_resource client None (JDict d) s
       = (case map_of d ''id'' of Some v \<Rightarrow> Inr (v, JDict d) | None \<Rightarrow> Inl (KeyError (JStr ''id'')), s)"
    by (simp add: fastly_import_resource_def action_defs
        split: option.splits)
  show "gcp_import_resource client None (JDict d) s
       = (case map_of d ''id'' of Some v \<Rightarrow> Inr (v, JDict d) | None \<Rightarrow> Inl (KeyError (JStr ''id'')), s)"
    by (simp add: gcp_import_resource_def action_defs
        split: option.splits)
  show "pagerduty_import_resource client None (JDict d) s
       = (case map_of d ''service_name'' of Some v \<Rightarrow> Inr (v, JDict d)
          | None \<Rightarrow> Inl (KeyError (JStr ''service_name'')), s)"
    by (simp add: pagerduty_import_resource_def action_defs
        split: option.splits)
  show "webhooks_import_resource client None (JDict d) s
       = (case map_of d ''name'' of Some v \<Rightarrow> Inr (v, JDict d)
          | None \<Rightarrow> Inl (KeyError (JStr ''name'')), s)"
    by (simp add: webhooks_import_resource_def action_defs
        split: option.splits)
qed

theorem import_resource_identity_witness:
  "aws_import_resource example_client None (JDict [(''host_tags'', JList [])]) example_adapter
     = (Inr ('':'', JDict [(''host_tags'', JList [])]), example_adapter)
   \<and> azure_import_resource example_client None (JDict [(''host_tags'', JList [])]) example_adapter
     = (Inr ('':'', JDict [(''host_tags'', JList [])]), example_adapter)
   \<and> slack_import_resource example_client None (JDict [(''host_tags'', JList [])]) example_adapter
     = (Inr ('':'', JDict [(''host_tags'', JList [])]), example_adapter)
   \<and> sd_import_resource example_client None (JDict [(''host_tags'', JList [])]) example_adapter
     = (Inr (JStr [], JDict [(''host_tags'', JList [])]), example_adapter)
   \<and> gcp_import_resource example_client None (JDict [(''host_tags'', JList [])]) example_adapter
     = (Inl (KeyError (JStr ''id'')), example_adapter)"
  using import_resource_identity [of example_client "[(''host_tags'', JList [])]" example_adapter]
  by simp

subsection \<open>Where update and delete take their target from\<close>









text \<open>Without an entry these eight operations raise before any request.\<close>

lemma surrogate_missing:
  assumes "map_of (destination s) ident = None"
  shows "fastly_update_resource client ident resource s = (Inl (KeyError (JStr ident)), s)"
    and "fastly_delete_resource client ident s = (Inl (KeyError (JStr ident)), s)"
    and "gcp_update_resource client ident resource s = (Inl (KeyError (JStr ident)), s)"
    and "gcp_delete_resource client ident s = (Inl (KeyError (JStr ident)), s)"
    and "pagerduty_update_resource client ident resource s = (Inl (KeyError (JStr ident)), s)"
    and "pagerduty_delete_resource client ident s = (Inl (KeyError (JStr ident)), s)"
    and "webhooks_update_resource client ident resource s = (Inl (KeyError (JStr ident)), s)"
    and "webhooks_delete_resource client ident s = (Inl (KeyError (JStr ident)), s)"
  using assms
  by (simp_all add: fastly_update_resource_def fastly_delete_resource_def gcp_update_resource_def
      gcp_delete_resource_def pagerduty_update_resource_def pagerduty_delete_resource_def
      webhooks_update_resource_def webhooks_delete_resource_def action_defs)

text \<open>
  AWS and the delete of Azure: the natural key is read in the entry, and in an empty
  mapping when there is no entry.
\<close>

lemma aws_update_calls_get:
  assumes "destination_get ident s = (Inr (JDict d), s)"
  shows "\<exists>params. aws_update_params (JDict d) resource = Inr params
           \<and> calls (snd (aws_update_resource client ident resource s))
               = calls s @ [PUT aws_base_path (JDict resource) (Some (JDict params))]"
proof -
  obtain params where p: "aws_update_params (JDict d) resource = Inr params"
    using aws_update_params_total by blast
  have "calls (snd (aws_update_resource client ident resource s))
          = calls s @ [PUT aws_base_path (JDict resource) (Some (JDict params))]"
    using assms p
    by (auto simp add: aws_update_resource_def seq_def lift_def send_def ret_def
        split: sum.splits prod.splits)
  with p show ?thesis by blast
qed

lemma aws_update_params_account:
  assumes "aws_update_params (JDict d) resource = Inr params"
  shows "map_of params ''account_id''
           = Some (case map_of d ''account_id'' of
                     Some v \<Rightarrow> v
                   | None \<Rightarrow> (case map_of resource ''account_id'' of Some v \<Rightarrow> v | None \<Rightarrow> JNull))"
  using assms
  by (auto simp add: aws_update_params_def ebind_def py_or_def Let_def update_conv'
      split: if_splits option.splits)



lemma destination_get_entry:
  "map_of (destination s) ident = Some v \<Longrightarrow> destination_get ident s = (Inr v, s)"
  "map_of (destination s) ident = None \<Longrightarrow> destination_get ident s = (Inr (JDict []), s)"
  by (simp_all add: destination_get_def read_def)

lemma aws_delete_missing:
  assumes "map_of (destination s) ident = None"
  shows "calls (snd (aws_delete_resource client ident s))
           = calls s @ [DELETE aws_base_path (Some (JDict [(''account_id'', JNull)]))]"
    and "fst (aws_delete_resource client ident s)
           = (case fst (client (DELETE aws_base_path (Some (JDict [(''account_id'', JNull)]))) (world s)) of
                Inl e \<Rightarrow> Inl e | Inr _ \<Rightarrow> Inr ())"
  using assms
  by (auto simp add: aws_delete_resource_def aws_delete_body_def ebind_def action_defs Let_def
      split: sum.splits prod.splits)

lemma azure_delete_calls_get:
  assumes "destination_get ident s = (Inr (JDict d), s)"
  shows "calls (snd (azure_delete_resource client ident s))
           = calls s @ [DELETE azure_base_path
                 (Some (JDict [(''tenant_name'', case map_of d ''tenant_name'' of Some v \<Rightarrow> v | None \<Rightarrow> JNull),
                               (''client_id'', case map_of d ''client_id'' of Some v \<Rightarrow> v | None \<Rightarrow> JNull)]))]"
    and "fst (azure_delete_resource client ident s)
           = (case fst (client (DELETE azure_base_path
                 (Some (JDict [(''tenant_name'', case map_of d ''tenant_name'' of Some v \<Rightarrow> v | None \<Rightarrow> JNull),
                               (''client_id'', case map_of d ''client_id'' of Some v \<Rightarrow> v | None \<Rightarrow> JNull)])))
                 (world s)) of
                Inl e \<Rightarrow> Inl e | Inr _ \<Rightarrow> Inr ())"
  using assms
  by (auto simp add: azure_delete_resource_def seq_def lift_def send_def ret_def
      split: sum.splits prod.splits)

text \<open>
  The update of Azure, Slack and the service definitions: the request is fixed by the
  resource and \<^verbatim>\<open>_id\<close>.
\<close>

lemma azure_update_calls:
  "calls (snd (azure_update_resource client ident resource s))
     = calls s @ [PUT azure_base_path (JDict resource) None]"
  by (auto simp add: azure_update_resource_def action_defs split: sum.splits prod.splits)

lemma slack_update_path:
  "calls (snd (slack_update_resource client ident resource s))
     = calls s @ [PATCH (slack_base_path @ ''/'' @ fst (slack_parse_composite_id ident)
                          @ ''/channels/'' @ snd (slack_parse_composite_id ident))
                    (JDict (slack_prepare_payload resource))]"
  by (auto simp add: slack_update_resource_def action_defs Let_def split: sum.splits prod.splits)

lemma slack_delete_path:
  "calls (snd (slack_delete_resource client ident s))
     = calls s @ [DELETE (slack_base_path @ ''/'' @ fst (slack_parse_composite_id ident)
                          @ ''/channels/'' @ snd (slack_parse_composite_id ident)) None]"
  by (auto simp add: slack_delete_resource_def action_defs Let_def split: sum.splits prod.splits)

lemma sd_delete_path:
  "calls (snd (sd_delete_resource client ident s))
     = calls s @ [DELETE (sd_base_path @ ''/'' @ ident) None]"
  by (auto simp add: sd_delete_resource_def action_defs split: sum.splits prod.splits)




text \<open>
  C4, as the claim states it, fails for the AWS adapter: without a State Store entry for
  \<^verbatim>\<open>_id\<close>, \<^verbatim>\<open>delete_resource\<close> takes the empty mapping for the entry, sends a DELETE
  whose body names the account \<^verbatim>\<open>None\<close>, and returns.
\<close>

theorem aws_delete_without_entry_proceeds:
  "map_of (destination example_adapter) ''1:R'' = None
   \<and> aws_delete_resource example_client ''1:R'' example_adapter
       = (Inr (), example_adapter\<lparr>calls := [DELETE aws_base_path (Some (JDict [(''account_id'', JNull)]))]\<rparr>)"
  by (simp add: aws_delete_resource_def aws_delete_body_def ebind_def action_defs Let_def
      example_adapter_def example_client_def)

text \<open>
  C4, amended. For an \<^verbatim>\<open>_id\<close> without an entry in
  \<^verbatim>\<open>state.destination[resource_type]\<close>, \<^verbatim>\<open>update_resource\<close> and \<^verbatim>\<open>delete_resource\<close> of
  the Fastly, GCP, PagerDuty and webhooks adapters raise \<^verbatim>\<open>KeyError(_id)\<close> before any
  request and leave the adapter as it was. The AWS adapter and the delete of the Azure
  adapter read the entry with a default and go on: the AWS delete and the Azure delete
  send null identifiers, the AWS update sends the account of the resource itself. The
  Azure update, the Slack adapter and the service definitions do not read the State
  Store: their request is fixed by the resource and \<^verbatim>\<open>_id\<close>.
\<close>

theorem update_delete_without_entry:
  assumes "map_of (destination s) ident = None"
  shows "fastly_update_resource client ident resource s = (Inl (KeyError (JStr ident)), s)
     \<and> fastly_delete_resource client ident s = (Inl (KeyError (JStr ident)), s)
     \<and> gcp_update_resource client ident resource s = (Inl (KeyError (JStr ident)), s)
     \<and> gcp_delete_resource client ident s = (Inl (KeyError (JStr ident)), s)
     \<and> pagerduty_update_resource client ident resource s = (Inl (KeyError (JStr ident)), s)
     \<and> pagerduty_delete_resource client ident s = (Inl (KeyError (JStr ident)), s)
     \<and> webhooks_update_resource client ident resource s = (Inl (KeyError (JStr ident)), s)
     \<and> webhooks_delete_resource client ident s = (Inl (KeyError (JStr ident)), s)
     \<and> calls (snd (aws_delete_resource client ident s))
         = calls s @ [DELETE aws_base_path (Some (JDict [(''account_id'', JNull)]))]
     \<and> (\<exists>params. calls (snd (aws_update_resource client ident resource s))
                    = calls s @ [PUT aws_base_path (JDict resource) (Some (JDict params))]
           \<and> map_of params ''account_id''
               = Some (case map_of resource ''account_id'' of Some v \<Rightarrow> v | None \<Rightarrow> JNull))
     \<and> calls (snd (azure_delete_resource client ident s))
         = calls s @ [DELETE azure_base_path
                        (Some (JDict [(''tenant_name'', JNull), (''client_id'', JNull)]))]
     \<and> calls (snd (azure_update_resource client ident resource s))
         = calls s @ [PUT azure_base_path (JDict resource) None]
     \<and> calls (snd (slack_update_resource client ident resource s))
         = calls s @ [PATCH (slack_base_path @ ''/'' @ fst (slack_parse_composite_id ident)
                              @ ''/channels/'' @ snd (slack_parse_composite_id ident))
                        (JDict (slack_prepare_payload resource))]
     \<and> calls (snd (slack_delete_resource client ident s))
         = calls s @ [DELETE (slack_base_path @ ''/'' @ fst (slack_parse_composite_id ident)
                              @ ''/channels/'' @ snd (slack_parse_composite_id ident)) None]
     \<and> calls (snd (sd_delete_resource client ident s))
         = calls s @ [DELETE (sd_base_path @ ''/'' @ ident) None]
     \<and> (\<forall>schema_data. sd_extract_schema_data (JDict resource) = Inr schema_data \<longrightarrow>
           calls (snd (sd_update_resource client ident resource s))
             = calls s @ [POST sd_base_path schema_data])"
proof -
  note get = destination_get_entry(2) [OF assms]
  from aws_update_calls_get [OF get, of resource client]
  obtain params where p: "aws_update_params (JDict []) resource = Inr params"
    and c: "calls (snd (aws_update_resource client ident resource s))
              = calls s @ [PUT aws_base_path (JDict resource) (Some (JDict params))]"
    by blast
  from aws_update_params_account [OF p]
  have "map_of params ''account_id''
          = Some (case map_of resource ''account_id'' of Some v \<Rightarrow> v | None \<Rightarrow> JNull)"
    by simp
  with c have aws: "\<exists>params. calls (snd (aws_update_resource client ident resource s))
                    = calls s @ [PUT aws_base_path (JDict resource) (Some (JDict params))]
           \<and> map_of params ''account_id''
               = Some (case map_of resource ''account_id'' of Some v \<Rightarrow> v | None \<Rightarrow> JNull)"
    by blast
  have azure: "calls (snd (azure_delete_resource client ident s))
         = calls s @ [DELETE azure_base_path
                        (Some (JDict [(''tenant_name'', JNull), (''client_id'', JNull)]))]"
    using azure_delete_calls_get(1) [OF get, of client] by simp
  have sd: "\<forall>schema_data. sd_extract_schema_data (JDict resource) = Inr schema_data \<longrightarrow>
           calls (snd (sd_update_resource client ident resource s))
             = calls s @ [POST sd_base_path schema_data]"
    by (simp add: sd_update_calls)
  show ?thesis
    by (intro conjI surrogate_missing [OF assms] aws_delete_missing(1) [OF assms] aws azure
        azure_update_calls slack_update_path slack_delete_path sd_delete_path sd)
qed

theorem update_delete_without_entry_witness:
  "fastly_update_resource example_client ''1:R'' example_resource example_adapter
     = (Inl (KeyError (JStr ''1:R'')), example_adapter)
   \<and> webhooks_delete_resource example_client ''1:R'' example_adapter
     = (Inl (KeyError (JStr ''1:R'')), example_adapter)
   \<and> calls (snd (azure_delete_resource example_client ''1:R'' example_adapter))
     = [DELETE azure_base_path (Some (JDict [(''tenant_name'', JNull), (''client_id'', JNull)]))]"
proof -
  have "map_of (destination example_adapter) ''1:R'' = None"
    by (simp add: example_adapter_def)
  from update_delete_without_entry [OF this, of example_client example_resource]
  show ?thesis
    by (simp add: example_adapter_def)
qed




end
